theory Spec2Isabelle
  imports Complex_Main
begin

section \<open>The alert engine of beelive-backend\<close>

text \<open>
  A shallow embedding of \<^verbatim>\<open>src/alerts/alert-engine.service.ts\<close> and
  \<^verbatim>\<open>src/alerts/alerts.constants.ts\<close>.

  Conventions of the embedding.
  \<^item> A JavaScript number is the \<^typ>\<open>real\<close> it stands for, and every arithmetic
    operation of the source rounds its exact result to the nearest double
    (\<open>roundDouble\<close>); comparisons are exact. Instants (\<^verbatim>\<open>Date\<close>) are
    milliseconds since the epoch, an \<^typ>\<open>int\<close>; the difference of two instants in the
    debounce test is an integer of less than 53 bits and needs no rounding.
  \<^item> The mutable fields of the service (\<^verbatim>\<open>alertStates\<close>, \<^verbatim>\<open>thresholds\<close>,
    \<^verbatim>\<open>lastWeight\<close>, \<^verbatim>\<open>lastWeightTime\<close>) form the record \<open>Engine\<close>, passed in and
    returned. Everything the service does to the outside (database statements,
    emitted events, log lines, timers) is appended to the field \<open>effects\<close>, oldest first.
  \<^item> What the outside answers is an input: the instant the clock shows and whether
    the insert into \<^verbatim>\<open>event_logs\<close> resolves or rejects (\<open>SinkEnv\<close>), and what the
    query on \<^verbatim>\<open>thresholds\<close> returns (\<open>db_result\<close>).
  \<^item> \<^verbatim>\<open>Promise.all\<close> over the eight checks is modelled as their composition in
    array order. Each check reads and writes only the states of its own kinds (and the
    weight check the weight tracker), so another interleaving changes nothing but the
    relative order of the effects of different kinds.
\<close>

subsection \<open>JavaScript numbers\<close>

text \<open>
  IEEE 754 binary64 with the default rounding, to nearest and ties to even, on the finite
  numbers: a significand of 53 bits, and the smallest binade that of \<open>pow2 (- 1022)\<close>
  (the subnormal numbers below it share its spacing). NaN, the infinities (results of
  magnitude \<open>pow2 1024\<close> and more) and the sign of zero are outside the model; the
  service divides only by a positive number.
\<close>

definition pow2 :: "int \<Rightarrow> real" where
  "pow2 e = (if 0 \<le> e then 2 ^ nat e else 1 / 2 ^ nat (- e))"

text \<open>
  The binade of a positive number \<open>a\<close>: the exponent \<open>e\<close> with
  \<open>pow2 e \<le> a < pow2 (e + 1)\<close>, found by halving or doubling; 2100 steps cover every
  double.
\<close>

primrec binadeFrom :: "nat \<Rightarrow> real \<Rightarrow> int \<Rightarrow> int" where
  "binadeFrom 0 a e = e"
| "binadeFrom (Suc n) a e =
     (if 2 \<le> a then binadeFrom n (a / 2) (e + 1)
      else if a < 1 then binadeFrom n (a * 2) (e - 1)
      else e)"

definition binade :: "real \<Rightarrow> int" where
  "binade a = binadeFrom 2100 a 0"

definition roundHalfEven :: "real \<Rightarrow> int" where
  "roundHalfEven y =
     (if y - of_int \<lfloor>y\<rfloor> < 1 / 2 then \<lfloor>y\<rfloor>
      else if 1 / 2 < y - of_int \<lfloor>y\<rfloor> then \<lfloor>y\<rfloor> + 1
      else if even \<lfloor>y\<rfloor> then \<lfloor>y\<rfloor> else \<lfloor>y\<rfloor> + 1)"

text \<open>Rounding in the binade \<open>e\<close>, where neighbouring doubles are \<open>pow2 (e - 52)\<close> apart.\<close>

definition roundAt :: "int \<Rightarrow> real \<Rightarrow> real" where
  "roundAt e x = of_int (roundHalfEven (x / pow2 (e - 52))) * pow2 (e - 52)"

definition roundDouble :: "real \<Rightarrow> real" where
  "roundDouble x = (if x = 0 then 0 else roundAt (max (binade \<bar>x\<bar>) (- 1022)) x)"

text \<open>The operators \<^verbatim>\<open>+\<close>, \<^verbatim>\<open>-\<close>, \<^verbatim>\<open>*\<close> and \<^verbatim>\<open>/\<close> on numbers.\<close>

definition add64 :: "real \<Rightarrow> real \<Rightarrow> real" where
  "add64 x y = roundDouble (x + y)"

definition sub64 :: "real \<Rightarrow> real \<Rightarrow> real" where
  "sub64 x y = roundDouble (x - y)"

definition mul64 :: "real \<Rightarrow> real \<Rightarrow> real" where
  "mul64 x y = roundDouble (x * y)"

definition div64 :: "real \<Rightarrow> real \<Rightarrow> real" where
  "div64 x y = roundDouble (x / y)"

subsection \<open>Constants (alerts.constants.ts, api.constants.ts)\<close>

text \<open>The literal \<^verbatim>\<open>0.05\<close> is the double nearest to one twentieth.\<close>

definition ALERT_DEBOUNCE_MS :: int where
  "ALERT_DEBOUNCE_MS = 5 * 60 * 1000"

definition ALERT_HYSTERESIS_PERCENT :: real where
  "ALERT_HYSTERESIS_PERCENT = roundDouble (5 / 100)"

definition HIVE_ID :: string where
  "HIVE_ID = ''BERLIN-ROOFTOP-01''"

subsection \<open>Data\<close>

datatype AlertType =
    TEMP_HIGH | TEMP_LOW | HUMIDITY_HIGH | HUMIDITY_LOW | WEIGHT_DROP
  | SOUND_ANOMALY | CO2_HIGH | SWARM_RISK | BATTERY_LOW | HONEY_GAIN_LOW

text \<open>The interface \<^verbatim>\<open>AlertState\<close>; a timer is known by its handle.\<close>

record AlertState =
  isActive :: bool
  lastTriggeredAt :: "int option"
  lastClearedAt :: "int option"
  debounceTimer :: "nat option"
  lastValue :: "real option"

text \<open>A row of the table \<^verbatim>\<open>thresholds\<close> (thresholds.schema.ts), all columns not null.\<close>

record Thresholds =
  tempMin :: real
  tempMax :: real
  humidityMin :: real
  humidityMax :: real
  maxWeightDropPerHourKg :: real
  soundMin :: real
  soundMax :: real
  co2Max :: real
  minDailyHoneyGainG :: real
  swarmRiskMax :: real
  batteryMin :: real

text \<open>
  The payload of \<^verbatim>\<open>telemetry.inserted\<close> (telemetry.schema.ts); only
  \<^verbatim>\<open>dailyHoneyGainG\<close> is nullable.
\<close>

record Telemetry =
  recordedAt :: int
  temperature :: real
  humidity :: real
  weightKg :: real
  soundDb :: real
  co2Ppm :: real
  dailyHoneyGainG :: "real option"
  swarmRisk :: real
  batteryPercent :: real

text \<open>A template string: its fixed text and the numbers interpolated into it.\<close>

datatype message = Message string "real list"

text \<open>
  The column \<^verbatim>\<open>type\<close> of an \<^verbatim>\<open>event_logs\<close> row: the name of the kind, or the
  name followed by \<^verbatim>\<open>_CLEARED\<close>.
\<close>

datatype row_type = Entered AlertType | ClearedRow AlertType

datatype level = LDebug | LLog | LWarn | LError

datatype effect =
    DbSelectThresholds string
  | DbInsertEventLog string row_type message
  | Emit string AlertType message real string int
  | Logged level string
  | ClearTimeout nat

datatype db_error = DbError

datatype 'a db_result = Rejected db_error | Resolved 'a

record SinkEnv =
  clockNow :: int
  insertResolves :: bool
  clockEmit :: int

record Env =
  sink :: "AlertType \<Rightarrow> SinkEnv"
  thresholdsQuery :: "Thresholds option db_result"

record Engine =
  alertStates :: "AlertType \<Rightarrow> AlertState"
  thresholds :: "Thresholds option"
  lastWeight :: "real option"
  lastWeightTime :: "int option"
  effects :: "effect list"

definition perform :: "effect list \<Rightarrow> Engine \<Rightarrow> Engine" where
  "perform es eng = eng\<lparr>effects := effects eng @ es\<rparr>"

subsection \<open>Construction and loading of the thresholds\<close>

definition initialState :: AlertState where
  "initialState = \<lparr>isActive = False, lastTriggeredAt = None, lastClearedAt = None,
     debounceTimer = None, lastValue = None\<rparr>"

definition initialEngine :: Engine where
  "initialEngine = \<lparr>alertStates = (\<lambda>_. initialState), thresholds = None,
     lastWeight = None, lastWeightTime = None, effects = []\<rparr>"

text \<open>
  \<^verbatim>\<open>loadThresholds\<close>: the first row of the result, if any, replaces the cache; no row
  and a rejected query both leave the cache as it is.
\<close>

definition loadThresholds :: "Thresholds option db_result \<Rightarrow> Engine \<Rightarrow> Engine" where
  "loadThresholds q eng =
     (case q of
        Resolved (Some row) \<Rightarrow>
          perform [DbSelectThresholds HIVE_ID, Logged LDebug ''Thresholds loaded successfully'']
            (eng\<lparr>thresholds := Some row\<rparr>)
      | Resolved None \<Rightarrow>
          perform [DbSelectThresholds HIVE_ID,
                   Logged LWarn ''No thresholds found, alerts will not trigger''] eng
      | Rejected e \<Rightarrow>
          perform [DbSelectThresholds HIVE_ID, Logged LError ''Failed to load thresholds''] eng)"

definition onModuleInit :: "Thresholds option db_result \<Rightarrow> Engine \<Rightarrow> Engine" where
  "onModuleInit q eng = perform [Logged LLog ''Alert engine initialized''] (loadThresholds q eng)"

subsection \<open>The two transitions\<close>

text \<open>The insert into \<^verbatim>\<open>event_logs\<close>: the statement is sent, and resolves or rejects.\<close>

definition insertEventLog :: "bool \<Rightarrow> row_type \<Rightarrow> message \<Rightarrow> effect list \<times> (db_error + unit)" where
  "insertEventLog ok ty m =
     ([DbInsertEventLog HIVE_ID ty m], if ok then Inr () else Inl DbError)"

text \<open>
  The debounce test of both transitions: the previous instant is set and less than the
  debounce period before now.
\<close>

definition debounced :: "int \<Rightarrow> int option \<Rightarrow> bool" where
  "debounced now previous =
     (case previous of None \<Rightarrow> False | Some t \<Rightarrow> now - t < ALERT_DEBOUNCE_MS)"

text \<open>
  \<^verbatim>\<open>triggerAlert\<close>. \<^verbatim>\<open>Date.now()\<close> of the debounce test and \<^verbatim>\<open>new Date()\<close> of the
  state update run in one synchronous block and are the instant \<open>clockNow\<close>; the
  \<^verbatim>\<open>new Date()\<close> of the payload comes after the \<^verbatim>\<open>await\<close> and is \<open>clockEmit\<close>.
  The \<^verbatim>\<open>try\<close> block is the case distinction on the result of the insert: the
  \<^verbatim>\<open>emit\<close> stands after the awaited insert inside the block, the \<^verbatim>\<open>catch\<close> logs.
\<close>

definition triggerAlert :: "SinkEnv \<Rightarrow> AlertType \<Rightarrow> message \<Rightarrow> real \<Rightarrow> Engine \<Rightarrow> Engine" where
  "triggerAlert io type msg val eng =
     (let state = alertStates eng type in
      if debounced (clockNow io) (lastTriggeredAt state)
      then perform [Logged LDebug ''Alert debounced''] eng
      else
        let timerEffects = (case debounceTimer state of None \<Rightarrow> [] | Some h \<Rightarrow> [ClearTimeout h]);
            state' = state\<lparr>debounceTimer := None, isActive := True,
                       lastTriggeredAt := Some (clockNow io), lastValue := Some val\<rparr>;
            eng' = perform timerEffects (eng\<lparr>alertStates := (alertStates eng)(type := state')\<rparr>)
        in (case insertEventLog (insertResolves io) (Entered type) msg of
              (es, Inr _) \<Rightarrow>
                perform (es @ [Emit ''alert.triggered'' type msg val HIVE_ID (clockEmit io),
                               Logged LWarn ''Alert triggered'']) eng'
            | (es, Inl err) \<Rightarrow>
                perform (es @ [Logged LError ''Failed to log alert'']) eng'))"

text \<open>\<^verbatim>\<open>clearAlert\<close>: returns at once when the alert is not active.\<close>

definition clearAlert :: "SinkEnv \<Rightarrow> AlertType \<Rightarrow> message \<Rightarrow> real \<Rightarrow> Engine \<Rightarrow> Engine" where
  "clearAlert io type msg val eng =
     (let state = alertStates eng type in
      if \<not> isActive state then eng
      else if debounced (clockNow io) (lastClearedAt state)
      then perform [Logged LDebug ''Alert clear debounced''] eng
      else
        let state' = state\<lparr>isActive := False, lastClearedAt := Some (clockNow io),
                       lastValue := Some val\<rparr>;
            eng' = eng\<lparr>alertStates := (alertStates eng)(type := state')\<rparr>
        in (case insertEventLog (insertResolves io) (ClearedRow type) msg of
              (es, Inr _) \<Rightarrow>
                perform (es @ [Emit ''alert.cleared'' type msg val HIVE_ID (clockEmit io),
                               Logged LLog ''Alert cleared'']) eng'
            | (es, Inl err) \<Rightarrow>
                perform (es @ [Logged LError ''Failed to log alert clear'']) eng'))"

subsection \<open>The eight checks\<close>

definition checkTemperatureAlerts :: "Env \<Rightarrow> Thresholds \<Rightarrow> Telemetry \<Rightarrow> Engine \<Rightarrow> Engine" where
  "checkTemperatureAlerts env th data eng =
     (let temp = temperature data;
          highThreshold = tempMax th;
          highClearThreshold = mul64 highThreshold (sub64 1 ALERT_HYSTERESIS_PERCENT);
          eng1 =
            (if temp > highThreshold \<and> \<not> isActive (alertStates eng TEMP_HIGH)
             then triggerAlert (sink env TEMP_HIGH) TEMP_HIGH
                    (Message ''Hive temperature critical'' [temp, highThreshold]) temp eng
             else if temp < highClearThreshold \<and> isActive (alertStates eng TEMP_HIGH)
             then clearAlert (sink env TEMP_HIGH) TEMP_HIGH
                    (Message ''Temperature normalized'' [temp]) temp eng
             else eng);
          lowThreshold = tempMin th;
          lowClearThreshold = mul64 lowThreshold (add64 1 ALERT_HYSTERESIS_PERCENT)
      in if temp < lowThreshold \<and> \<not> isActive (alertStates eng1 TEMP_LOW)
         then triggerAlert (sink env TEMP_LOW) TEMP_LOW
                (Message ''Hive temperature low'' [temp, lowThreshold]) temp eng1
         else if temp > lowClearThreshold \<and> isActive (alertStates eng1 TEMP_LOW)
         then clearAlert (sink env TEMP_LOW) TEMP_LOW
                (Message ''Temperature normalized'' [temp]) temp eng1
         else eng1)"

definition checkHumidityAlerts :: "Env \<Rightarrow> Thresholds \<Rightarrow> Telemetry \<Rightarrow> Engine \<Rightarrow> Engine" where
  "checkHumidityAlerts env th data eng =
     (let hum = humidity data;
          highThreshold = humidityMax th;
          highClearThreshold = mul64 highThreshold (sub64 1 ALERT_HYSTERESIS_PERCENT);
          eng1 =
            (if hum > highThreshold \<and> \<not> isActive (alertStates eng HUMIDITY_HIGH)
             then triggerAlert (sink env HUMIDITY_HIGH) HUMIDITY_HIGH
                    (Message ''Humidity above threshold'' [hum, highThreshold]) hum eng
             else if hum < highClearThreshold \<and> isActive (alertStates eng HUMIDITY_HIGH)
             then clearAlert (sink env HUMIDITY_HIGH) HUMIDITY_HIGH
                    (Message ''Humidity normalized'' [hum]) hum eng
             else eng);
          lowThreshold = humidityMin th;
          lowClearThreshold = mul64 lowThreshold (add64 1 ALERT_HYSTERESIS_PERCENT)
      in if hum < lowThreshold \<and> \<not> isActive (alertStates eng1 HUMIDITY_LOW)
         then triggerAlert (sink env HUMIDITY_LOW) HUMIDITY_LOW
                (Message ''Humidity below threshold'' [hum, lowThreshold]) hum eng1
         else if hum > lowClearThreshold \<and> isActive (alertStates eng1 HUMIDITY_LOW)
         then clearAlert (sink env HUMIDITY_LOW) HUMIDITY_LOW
                (Message ''Humidity normalized'' [hum]) hum eng1
         else eng1)"

text \<open>
  \<^verbatim>\<open>checkWeightAlerts\<close>: the rate of the drop between the tracked and the current
  reading, each step of the computation rounded as the source's operators round it
  (\<^verbatim>\<open>getTime()\<close> of a valid \<^verbatim>\<open>Date\<close> is an integer that a double holds exactly);
  the tracker is written at the end, after either branch.
\<close>

definition checkWeightAlerts :: "Env \<Rightarrow> Thresholds \<Rightarrow> Telemetry \<Rightarrow> Engine \<Rightarrow> Engine" where
  "checkWeightAlerts env th data eng =
     (let currentWeight = weightKg data;
          currentTime = recordedAt data;
          eng1 =
            (case (lastWeight eng, lastWeightTime eng) of
               (Some lw, Some lt) \<Rightarrow>
                 (let timeDiffMs = sub64 (real_of_int currentTime) (real_of_int lt);
                      timeDiffHours = div64 timeDiffMs (mul64 (mul64 1000 60) 60);
                      weightDiff = sub64 lw currentWeight
                  in if timeDiffHours > 0 \<and> timeDiffHours \<le> 1 \<and> weightDiff > 0
                     then
                       (let dropPerHour = div64 weightDiff timeDiffHours;
                            threshold = maxWeightDropPerHourKg th;
                            clearThreshold = mul64 threshold (sub64 1 ALERT_HYSTERESIS_PERCENT)
                        in if dropPerHour > threshold \<and> \<not> isActive (alertStates eng WEIGHT_DROP)
                           then triggerAlert (sink env WEIGHT_DROP) WEIGHT_DROP
                                  (Message ''Sudden weight loss detected'' [dropPerHour, threshold])
                                  dropPerHour eng
                           else if dropPerHour \<le> clearThreshold \<and> isActive (alertStates eng WEIGHT_DROP)
                           then clearAlert (sink env WEIGHT_DROP) WEIGHT_DROP
                                  (Message ''Weight drop normalized'' [dropPerHour]) dropPerHour eng
                           else eng)
                     else eng)
             | _ \<Rightarrow> eng)
      in eng1\<lparr>lastWeight := Some currentWeight, lastWeightTime := Some currentTime\<rparr>)"

definition checkSoundAlerts :: "Env \<Rightarrow> Thresholds \<Rightarrow> Telemetry \<Rightarrow> Engine \<Rightarrow> Engine" where
  "checkSoundAlerts env th data eng =
     (let sound = soundDb data;
          maxThreshold = soundMax th;
          minThreshold = soundMin th;
          maxClearThreshold = mul64 maxThreshold (sub64 1 ALERT_HYSTERESIS_PERCENT);
          minClearThreshold = mul64 minThreshold (add64 1 ALERT_HYSTERESIS_PERCENT);
          isAnomaly = (sound > maxThreshold \<or> sound < minThreshold);
          isNormal = (sound \<le> maxClearThreshold \<and> sound \<ge> minClearThreshold)
      in if isAnomaly \<and> \<not> isActive (alertStates eng SOUND_ANOMALY)
         then triggerAlert (sink env SOUND_ANOMALY) SOUND_ANOMALY
                (Message (if sound > maxThreshold then ''Sound level high'' else ''Sound level low'')
                   [sound, minThreshold, maxThreshold]) sound eng
         else if isNormal \<and> isActive (alertStates eng SOUND_ANOMALY)
         then clearAlert (sink env SOUND_ANOMALY) SOUND_ANOMALY
                (Message ''Sound level normalized'' [sound]) sound eng
         else eng)"

definition checkCo2Alerts :: "Env \<Rightarrow> Thresholds \<Rightarrow> Telemetry \<Rightarrow> Engine \<Rightarrow> Engine" where
  "checkCo2Alerts env th data eng =
     (let co2 = co2Ppm data;
          threshold = co2Max th;
          clearThreshold = mul64 threshold (sub64 1 ALERT_HYSTERESIS_PERCENT)
      in if co2 > threshold \<and> \<not> isActive (alertStates eng CO2_HIGH)
         then triggerAlert (sink env CO2_HIGH) CO2_HIGH
                (Message ''CO2 level high'' [co2, threshold]) co2 eng
         else if co2 < clearThreshold \<and> isActive (alertStates eng CO2_HIGH)
         then clearAlert (sink env CO2_HIGH) CO2_HIGH
                (Message ''CO2 level normalized'' [co2]) co2 eng
         else eng)"

definition checkSwarmRiskAlerts :: "Env \<Rightarrow> Thresholds \<Rightarrow> Telemetry \<Rightarrow> Engine \<Rightarrow> Engine" where
  "checkSwarmRiskAlerts env th data eng =
     (let risk = swarmRisk data;
          threshold = swarmRiskMax th;
          clearThreshold = mul64 threshold (sub64 1 ALERT_HYSTERESIS_PERCENT)
      in if risk > threshold \<and> \<not> isActive (alertStates eng SWARM_RISK)
         then triggerAlert (sink env SWARM_RISK) SWARM_RISK
                (Message ''Swarm risk very high'' [risk, threshold]) risk eng
         else if risk < clearThreshold \<and> isActive (alertStates eng SWARM_RISK)
         then clearAlert (sink env SWARM_RISK) SWARM_RISK
                (Message ''Swarm risk normalized'' [risk]) risk eng
         else eng)"

definition checkBatteryAlerts :: "Env \<Rightarrow> Thresholds \<Rightarrow> Telemetry \<Rightarrow> Engine \<Rightarrow> Engine" where
  "checkBatteryAlerts env th data eng =
     (let battery = batteryPercent data;
          threshold = batteryMin th;
          clearThreshold = mul64 threshold (add64 1 ALERT_HYSTERESIS_PERCENT)
      in if battery < threshold \<and> \<not> isActive (alertStates eng BATTERY_LOW)
         then triggerAlert (sink env BATTERY_LOW) BATTERY_LOW
                (Message ''Battery level low'' [battery, threshold]) battery eng
         else if battery > clearThreshold \<and> isActive (alertStates eng BATTERY_LOW)
         then clearAlert (sink env BATTERY_LOW) BATTERY_LOW
                (Message ''Battery level normalized'' [battery]) battery eng
         else eng)"

definition checkHoneyGainAlerts :: "Env \<Rightarrow> Thresholds \<Rightarrow> Telemetry \<Rightarrow> Engine \<Rightarrow> Engine" where
  "checkHoneyGainAlerts env th data eng =
     (case dailyHoneyGainG data of
        None \<Rightarrow> eng
      | Some honeyGain \<Rightarrow>
          (let threshold = minDailyHoneyGainG th;
               clearThreshold = mul64 threshold (add64 1 ALERT_HYSTERESIS_PERCENT)
           in if honeyGain < threshold \<and> \<not> isActive (alertStates eng HONEY_GAIN_LOW)
              then triggerAlert (sink env HONEY_GAIN_LOW) HONEY_GAIN_LOW
                     (Message ''Daily honey gain below threshold'' [honeyGain, threshold])
                     honeyGain eng
              else if honeyGain > clearThreshold \<and> isActive (alertStates eng HONEY_GAIN_LOW)
              then clearAlert (sink env HONEY_GAIN_LOW) HONEY_GAIN_LOW
                     (Message ''Honey gain normalized'' [honeyGain]) honeyGain eng
              else eng))"

subsection \<open>The handler of telemetry.inserted\<close>

definition checkAll :: "Env \<Rightarrow> Thresholds \<Rightarrow> Telemetry \<Rightarrow> Engine \<Rightarrow> Engine" where
  "checkAll env th data eng =
     checkHoneyGainAlerts env th data
      (checkBatteryAlerts env th data
        (checkSwarmRiskAlerts env th data
          (checkCo2Alerts env th data
            (checkSoundAlerts env th data
              (checkWeightAlerts env th data
                (checkHumidityAlerts env th data
                  (checkTemperatureAlerts env th data eng)))))))"

definition handleTelemetryInsert :: "Env \<Rightarrow> Telemetry \<Rightarrow> Engine \<Rightarrow> Engine" where
  "handleTelemetryInsert env data eng =
     (case thresholds eng of
        Some th \<Rightarrow> checkAll env th data eng
      | None \<Rightarrow>
          (let eng0 = loadThresholds (thresholdsQuery env) eng in
           case thresholds eng0 of
             None \<Rightarrow> perform [Logged LWarn ''Cannot process alerts: thresholds not available''] eng0
           | Some th \<Rightarrow> checkAll env th data eng0))"

text \<open>A run of the service: the start of the module, then one call per reading.\<close>

fun run :: "(Env \<times> Telemetry) list \<Rightarrow> Engine \<Rightarrow> Engine" where
  "run [] eng = eng"
| "run ((env, data) # rest) eng = run rest (handleTelemetryInsert env data eng)"

definition service :: "Thresholds option db_result \<Rightarrow> (Env \<times> Telemetry) list \<Rightarrow> Engine" where
  "service q steps = run steps (onModuleInit q initialEngine)"

subsection \<open>Inputs used in the examples\<close>

text \<open>The row that the seeding service writes (\<^verbatim>\<open>DEFAULT_THRESHOLDS\<close>).\<close>

definition DEFAULT_THRESHOLDS :: Thresholds where
  "DEFAULT_THRESHOLDS = \<lparr>tempMin = 30, tempMax = 36, humidityMin = 30, humidityMax = 80,
     maxWeightDropPerHourKg = 1 / 2, soundMin = 25, soundMax = 75, co2Max = 1000,
     minDailyHoneyGainG = - 200, swarmRiskMax = 70, batteryMin = 20\<rparr>"

text \<open>A reading inside every threshold of that row, taken at instant \<open>t\<close>.\<close>

definition calmReading :: "int \<Rightarrow> Telemetry" where
  "calmReading t = \<lparr>recordedAt = t, temperature = 33, humidity = 55, weightKg = 40,
     soundDb = 60, co2Ppm = 500, dailyHoneyGainG = Some 500, swarmRisk = 10,
     batteryPercent = 95\<rparr>"

text \<open>The outside at instant \<open>t\<close>: every insert resolves, or every insert rejects.\<close>

definition sinkAt :: "int \<Rightarrow> bool \<Rightarrow> SinkEnv" where
  "sinkAt t ok = \<lparr>clockNow = t, insertResolves = ok, clockEmit = t\<rparr>"

definition envAt :: "int \<Rightarrow> bool \<Rightarrow> Env" where
  "envAt t ok = \<lparr>sink = (\<lambda>_. sinkAt t ok), thresholdsQuery = Resolved (Some DEFAULT_THRESHOLDS)\<rparr>"

text \<open>The same outside with no row in the table \<^verbatim>\<open>thresholds\<close>.\<close>

definition envNoRow :: "int \<Rightarrow> Env" where
  "envNoRow t = \<lparr>sink = (\<lambda>_. sinkAt t True), thresholdsQuery = Resolved None\<rparr>"

subsection \<open>What an observer sees of the effects\<close>

datatype direction = TRIGGERED | CLEARED

text \<open>
  A transition is handed to the sink by exactly one insert into \<^verbatim>\<open>event_logs\<close>, sent
  right after the state is updated: the transitions of a trace are its inserts.
\<close>

fun transitionOf :: "effect \<Rightarrow> (AlertType \<times> direction) list" where
  "transitionOf (DbInsertEventLog h (Entered k) m) = [(k, TRIGGERED)]"
| "transitionOf (DbInsertEventLog h (ClearedRow k) m) = [(k, CLEARED)]"
| "transitionOf e = []"

definition transitions :: "effect list \<Rightarrow> (AlertType \<times> direction) list" where
  "transitions es = concat (map transitionOf es)"

fun publishedOf :: "effect \<Rightarrow> (string \<times> AlertType) list" where
  "publishedOf (Emit name k m v h t) = [(name, k)]"
| "publishedOf e = []"

definition published :: "effect list \<Rightarrow> (string \<times> AlertType) list" where
  "published es = concat (map publishedOf es)"

fun queryOf :: "effect \<Rightarrow> nat" where
  "queryOf (DbSelectThresholds h) = 1"
| "queryOf e = 0"

definition reloads :: "effect list \<Rightarrow> nat" where
  "reloads es = sum_list (map queryOf es)"

fun errorOf :: "effect \<Rightarrow> nat" where
  "errorOf (Logged LError s) = 1"
| "errorOf e = 0"

definition errorsLogged :: "effect list \<Rightarrow> nat" where
  "errorsLogged es = sum_list (map errorOf es)"

text \<open>The effects a call has added: those of the result beyond those of the start.\<close>

definition added :: "Engine \<Rightarrow> Engine \<Rightarrow> effect list" where
  "added eng eng' = drop (length (effects eng)) (effects eng')"

definition directionsOf :: "AlertType \<Rightarrow> effect list \<Rightarrow> direction list" where
  "directionsOf k es = map snd (filter (\<lambda>p. fst p = k) (transitions es))"

fun oppositeNeighbours :: "direction list \<Rightarrow> bool" where
  "oppositeNeighbours (x # y # rest) = (x \<noteq> y \<and> oppositeNeighbours (y # rest))"
| "oppositeNeighbours ds = True"

text \<open>
  Replaying directions on the activity flag: a trigger needs an inactive alert and
  leaves it active, a clear needs an active one and leaves it inactive.
\<close>

fun replay :: "bool \<Rightarrow> direction list \<Rightarrow> bool option" where
  "replay b [] = Some b"
| "replay b (TRIGGERED # ds) = (if b then None else replay True ds)"
| "replay b (CLEARED # ds) = (if b then replay False ds else None)"

text \<open>
  What every check does between a start and a result, for the set \<open>ks\<close> of kinds it
  owns: the cached thresholds stay, the trace only grows, no query on the thresholds is
  sent, a kind outside \<open>ks\<close> keeps its state and gets no transition, and the
  transitions of every kind replay from its old activity flag to its new one.
\<close>

definition alertStep :: "AlertType set \<Rightarrow> Engine \<Rightarrow> Engine \<Rightarrow> bool" where
  "alertStep ks eng eng' \<longleftrightarrow>
     thresholds eng' = thresholds eng \<and>
     effects eng' = effects eng @ added eng eng' \<and>
     reloads (added eng eng') = 0 \<and>
     (\<forall>k. k \<notin> ks \<longrightarrow>
        alertStates eng' k = alertStates eng k \<and> directionsOf k (added eng eng') = []) \<and>
     (\<forall>k. replay (isActive (alertStates eng k)) (directionsOf k (added eng eng'))
           = Some (isActive (alertStates eng' k)))"

text \<open>The first seven promises of the handler, without the honey-gain check.\<close>

definition firstSeven :: "Env \<Rightarrow> Thresholds \<Rightarrow> Telemetry \<Rightarrow> Engine \<Rightarrow> Engine" where
  "firstSeven env th data eng =
     checkBatteryAlerts env th data
        (checkSwarmRiskAlerts env th data
          (checkCo2Alerts env th data
            (checkSoundAlerts env th data
              (checkWeightAlerts env th data
                (checkHumidityAlerts env th data
                  (checkTemperatureAlerts env th data eng))))))"

section \<open>Properties\<close>

subsection \<open>Basic facts\<close>

lemma perform_fields [simp]:
  "alertStates (perform es eng) = alertStates eng"
  "thresholds (perform es eng) = thresholds eng"
  "lastWeight (perform es eng) = lastWeight eng"
  "lastWeightTime (perform es eng) = lastWeightTime eng"
  "effects (perform es eng) = effects eng @ es"
  by (simp_all add: perform_def)

lemma observers_Nil [simp]:
  "transitions [] = []" "published [] = []" "reloads [] = 0" "errorsLogged [] = 0"
  "directionsOf k [] = []"
  by (simp_all add: transitions_def published_def reloads_def errorsLogged_def directionsOf_def)

lemma observers_Cons [simp]:
  "transitions (e # es) = transitionOf e @ transitions es"
  "published (e # es) = publishedOf e @ published es"
  "reloads (e # es) = queryOf e + reloads es"
  "errorsLogged (e # es) = errorOf e + errorsLogged es"
  by (simp_all add: transitions_def published_def reloads_def errorsLogged_def)

lemma observers_append [simp]:
  "transitions (xs @ ys) = transitions xs @ transitions ys"
  "published (xs @ ys) = published xs @ published ys"
  "reloads (xs @ ys) = reloads xs + reloads ys"
  "errorsLogged (xs @ ys) = errorsLogged xs + errorsLogged ys"
  by (simp_all add: transitions_def published_def reloads_def errorsLogged_def)

lemma directionsOf_Cons [simp]:
  "directionsOf k (e # es) = map snd (filter (\<lambda>p. fst p = k) (transitionOf e)) @ directionsOf k es"
  by (simp add: directionsOf_def transitions_def)

lemma directionsOf_append [simp]:
  "directionsOf k (xs @ ys) = directionsOf k xs @ directionsOf k ys"
  by (simp add: directionsOf_def)

lemma added_same [simp]: "added eng eng = []"
  by (simp add: added_def)

lemma added_perform [simp]: "added eng (perform es eng) = es"
  by (simp add: added_def)

lemma added_grown: "effects eng' = effects eng @ es \<Longrightarrow> added eng eng' = es"
  by (simp add: added_def)

lemma added_update_tracker [simp]:
  "added eng (eng'\<lparr>lastWeight := w, lastWeightTime := t\<rparr>) = added eng eng'"
  by (simp add: added_def)

lemma replay_append:
  "replay b (xs @ ys) = (case replay b xs of None \<Rightarrow> None | Some b' \<Rightarrow> replay b' ys)"
proof (induction xs arbitrary: b)
  case Nil
  show ?case by simp
next
  case (Cons d ds)
  show ?case by (cases d) (simp_all add: Cons.IH)
qed

lemma replay_opposite:
  "replay b ds = Some b' \<Longrightarrow>
     oppositeNeighbours ds \<and> (ds \<noteq> [] \<longrightarrow> hd ds = (if b then CLEARED else TRIGGERED))"
proof (induction ds arbitrary: b)
  case Nil
  show ?case by simp
next
  case (Cons d ds)
  show ?case
  proof (cases d)
    case TRIGGERED
    with Cons.prems have nb: "\<not> b" and r: "replay True ds = Some b'"
      by (simp_all split: if_splits)
    from Cons.IH [OF r] TRIGGERED nb show ?thesis
      by (cases ds) auto
  next
    case CLEARED
    with Cons.prems have b: "b" and r: "replay False ds = Some b'"
      by (simp_all split: if_splits)
    from Cons.IH [OF r] CLEARED b show ?thesis
      by (cases ds) auto
  qed
qed

subsection \<open>Steps\<close>

lemma alertStep_refl: "alertStep ks eng eng"
  by (simp add: alertStep_def)

lemma alertStep_mono: "alertStep ks eng eng' \<Longrightarrow> ks \<subseteq> ks' \<Longrightarrow> alertStep ks' eng eng'"
  by (auto simp: alertStep_def)

lemma alertStep_trans:
  assumes a: "alertStep ks eng eng1" and b: "alertStep ks eng1 eng2"
  shows "alertStep ks eng eng2"
proof -
  from a have e1: "effects eng1 = effects eng @ added eng eng1"
    by (simp add: alertStep_def)
  from b have e2: "effects eng2 = effects eng1 @ added eng1 eng2"
    by (simp add: alertStep_def)
  from e1 e2 have e: "effects eng2 = effects eng @ (added eng eng1 @ added eng1 eng2)"
    by simp
  then have ad: "added eng eng2 = added eng eng1 @ added eng1 eng2"
    by (rule added_grown)
  have t: "thresholds eng2 = thresholds eng"
    using a b by (simp add: alertStep_def)
  have r: "reloads (added eng eng2) = 0"
    using a b by (simp add: alertStep_def ad)
  have f: "\<forall>k. k \<notin> ks \<longrightarrow>
        alertStates eng2 k = alertStates eng k \<and> directionsOf k (added eng eng2) = []"
    using a b by (simp add: alertStep_def ad)
  have p: "\<forall>k. replay (isActive (alertStates eng k)) (directionsOf k (added eng eng2))
           = Some (isActive (alertStates eng2 k))"
    using a b by (simp add: alertStep_def ad replay_append)
  show ?thesis
    unfolding alertStep_def using t e ad r f p by simp
qed

lemma alertStep_tracker:
  "alertStep ks eng eng' \<Longrightarrow> alertStep ks eng (eng'\<lparr>lastWeight := w, lastWeightTime := t\<rparr>)"
  by (simp add: alertStep_def)

lemma triggerAlert_step:
  "\<not> isActive (alertStates eng ty) \<Longrightarrow> alertStep {ty} eng (triggerAlert io ty m v eng)"
  by (simp add: alertStep_def triggerAlert_def insertEventLog_def Let_def added_def
           split: option.splits)

lemma clearAlert_step: "alertStep {ty} eng (clearAlert io ty m v eng)"
  by (simp add: alertStep_def clearAlert_def insertEventLog_def Let_def added_def
           split: option.splits)

subsection \<open>The checks as steps\<close>

lemma guarded_step:
  "alertStep {ty} eng
     (if c \<and> \<not> isActive (alertStates eng ty) then triggerAlert io ty m v eng
      else if c' \<and> isActive (alertStates eng ty) then clearAlert io' ty m' v' eng
      else eng)"
  by (simp add: triggerAlert_step clearAlert_step alertStep_refl)

lemma alertStep_seq:
  assumes "alertStep ks eng eng1" and "alertStep ks' eng1 eng2"
  shows "alertStep (ks \<union> ks') eng eng2"
proof (rule alertStep_trans)
  show "alertStep (ks \<union> ks') eng eng1"
    using assms(1) by (rule alertStep_mono) simp
  show "alertStep (ks \<union> ks') eng1 eng2"
    using assms(2) by (rule alertStep_mono) simp
qed

lemma checkTemperatureAlerts_step:
  "alertStep {TEMP_HIGH, TEMP_LOW} eng (checkTemperatureAlerts env th data eng)"
proof -
  define eng1 where "eng1 =
    (if temperature data > tempMax th \<and> \<not> isActive (alertStates eng TEMP_HIGH)
     then triggerAlert (sink env TEMP_HIGH) TEMP_HIGH
            (Message ''Hive temperature critical'' [temperature data, tempMax th])
            (temperature data) eng
     else if temperature data < mul64 (tempMax th) (sub64 1 ALERT_HYSTERESIS_PERCENT)
               \<and> isActive (alertStates eng TEMP_HIGH)
     then clearAlert (sink env TEMP_HIGH) TEMP_HIGH
            (Message ''Temperature normalized'' [temperature data]) (temperature data) eng
     else eng)"
  have a: "alertStep {TEMP_HIGH} eng eng1"
    unfolding eng1_def by (rule guarded_step)
  have "alertStep {TEMP_LOW} eng1 (checkTemperatureAlerts env th data eng)"
    unfolding checkTemperatureAlerts_def Let_def eng1_def [symmetric] by (rule guarded_step)
  with a have "alertStep ({TEMP_HIGH} \<union> {TEMP_LOW}) eng (checkTemperatureAlerts env th data eng)"
    by (rule alertStep_seq)
  then show ?thesis by (simp add: insert_commute)
qed

lemma checkHumidityAlerts_step:
  "alertStep {HUMIDITY_HIGH, HUMIDITY_LOW} eng (checkHumidityAlerts env th data eng)"
proof -
  define eng1 where "eng1 =
    (if humidity data > humidityMax th \<and> \<not> isActive (alertStates eng HUMIDITY_HIGH)
     then triggerAlert (sink env HUMIDITY_HIGH) HUMIDITY_HIGH
            (Message ''Humidity above threshold'' [humidity data, humidityMax th])
            (humidity data) eng
     else if humidity data < mul64 (humidityMax th) (sub64 1 ALERT_HYSTERESIS_PERCENT)
               \<and> isActive (alertStates eng HUMIDITY_HIGH)
     then clearAlert (sink env HUMIDITY_HIGH) HUMIDITY_HIGH
            (Message ''Humidity normalized'' [humidity data]) (humidity data) eng
     else eng)"
  have a: "alertStep {HUMIDITY_HIGH} eng eng1"
    unfolding eng1_def by (rule guarded_step)
  have "alertStep {HUMIDITY_LOW} eng1 (checkHumidityAlerts env th data eng)"
    unfolding checkHumidityAlerts_def Let_def eng1_def [symmetric] by (rule guarded_step)
  with a have "alertStep ({HUMIDITY_HIGH} \<union> {HUMIDITY_LOW}) eng (checkHumidityAlerts env th data eng)"
    by (rule alertStep_seq)
  then show ?thesis by (simp add: insert_commute)
qed

lemma checkWeightAlerts_step:
  "alertStep {WEIGHT_DROP} eng (checkWeightAlerts env th data eng)"
  unfolding checkWeightAlerts_def Let_def
  by (auto intro!: alertStep_tracker alertStep_refl triggerAlert_step clearAlert_step
        split: option.splits prod.splits)

lemma checkSoundAlerts_step:
  "alertStep {SOUND_ANOMALY} eng (checkSoundAlerts env th data eng)"
  unfolding checkSoundAlerts_def Let_def by (rule guarded_step)

lemma checkCo2Alerts_step:
  "alertStep {CO2_HIGH} eng (checkCo2Alerts env th data eng)"
  unfolding checkCo2Alerts_def Let_def by (rule guarded_step)

lemma checkSwarmRiskAlerts_step:
  "alertStep {SWARM_RISK} eng (checkSwarmRiskAlerts env th data eng)"
  unfolding checkSwarmRiskAlerts_def Let_def by (rule guarded_step)

lemma checkBatteryAlerts_step:
  "alertStep {BATTERY_LOW} eng (checkBatteryAlerts env th data eng)"
  unfolding checkBatteryAlerts_def Let_def by (rule guarded_step)

lemma checkHoneyGainAlerts_step:
  "alertStep {HONEY_GAIN_LOW} eng (checkHoneyGainAlerts env th data eng)"
  unfolding checkHoneyGainAlerts_def Let_def
  by (auto intro!: alertStep_refl triggerAlert_step clearAlert_step split: option.splits)


lemma transition_tracker [simp]:
  "lastWeight (triggerAlert io ty m v eng) = lastWeight eng"
  "lastWeightTime (triggerAlert io ty m v eng) = lastWeightTime eng"
  "lastWeight (clearAlert io ty m v eng) = lastWeight eng"
  "lastWeightTime (clearAlert io ty m v eng) = lastWeightTime eng"
  by (simp_all add: triggerAlert_def clearAlert_def insertEventLog_def Let_def)

lemma later_checks_tracker:
  "lastWeight (checkSoundAlerts env th data eng) = lastWeight eng"
  "lastWeightTime (checkSoundAlerts env th data eng) = lastWeightTime eng"
  "lastWeight (checkCo2Alerts env th data eng) = lastWeight eng"
  "lastWeightTime (checkCo2Alerts env th data eng) = lastWeightTime eng"
  "lastWeight (checkSwarmRiskAlerts env th data eng) = lastWeight eng"
  "lastWeightTime (checkSwarmRiskAlerts env th data eng) = lastWeightTime eng"
  "lastWeight (checkBatteryAlerts env th data eng) = lastWeight eng"
  "lastWeightTime (checkBatteryAlerts env th data eng) = lastWeightTime eng"
  "lastWeight (checkHoneyGainAlerts env th data eng) = lastWeight eng"
  "lastWeightTime (checkHoneyGainAlerts env th data eng) = lastWeightTime eng"
  by (simp_all add: checkSoundAlerts_def checkCo2Alerts_def checkSwarmRiskAlerts_def
        checkBatteryAlerts_def checkHoneyGainAlerts_def Let_def split: option.splits)

lemma checkWeightAlerts_tracker:
  "lastWeight (checkWeightAlerts env th data eng) = Some (weightKg data)"
  "lastWeightTime (checkWeightAlerts env th data eng) = Some (recordedAt data)"
  by (simp_all add: checkWeightAlerts_def Let_def)

lemma checkAll_tracker:
  "lastWeight (checkAll env th data eng) = Some (weightKg data)"
  "lastWeightTime (checkAll env th data eng) = Some (recordedAt data)"
  by (simp_all add: checkAll_def later_checks_tracker checkWeightAlerts_tracker)

lemma firstSeven_step:
  "alertStep (- {HONEY_GAIN_LOW}) eng (firstSeven env th data eng)"
  unfolding firstSeven_def
  by (intro alertStep_trans [OF _ alertStep_mono [OF checkBatteryAlerts_step]]
            alertStep_trans [OF _ alertStep_mono [OF checkSwarmRiskAlerts_step]]
            alertStep_trans [OF _ alertStep_mono [OF checkCo2Alerts_step]]
            alertStep_trans [OF _ alertStep_mono [OF checkSoundAlerts_step]]
            alertStep_trans [OF _ alertStep_mono [OF checkWeightAlerts_step]]
            alertStep_trans [OF _ alertStep_mono [OF checkHumidityAlerts_step]]
            alertStep_mono [OF checkTemperatureAlerts_step]) simp_all

lemma checkAll_step: "alertStep UNIV eng (checkAll env th data eng)"
proof -
  have "alertStep UNIV eng (firstSeven env th data eng)"
    using firstSeven_step by (rule alertStep_mono) simp
  moreover have "alertStep UNIV (firstSeven env th data eng) (checkAll env th data eng)"
    unfolding checkAll_def firstSeven_def [symmetric]
    using checkHoneyGainAlerts_step by (rule alertStep_mono) simp
  ultimately show ?thesis by (rule alertStep_trans)
qed

lemma checkAll_without_gain:
  assumes "dailyHoneyGainG data = None"
  shows "alertStep (- {HONEY_GAIN_LOW}) eng (checkAll env th data eng)"
proof -
  have "checkAll env th data eng = firstSeven env th data eng"
    using assms by (simp add: checkAll_def firstSeven_def checkHoneyGainAlerts_def)
  then show ?thesis by (simp add: firstSeven_step)
qed

subsection \<open>The handler as a step\<close>

lemma loadThresholds_step:
  "alertStates (loadThresholds q eng) = alertStates eng"
  "lastWeight (loadThresholds q eng) = lastWeight eng"
  "lastWeightTime (loadThresholds q eng) = lastWeightTime eng"
  "effects (loadThresholds q eng) = effects eng @ added eng (loadThresholds q eng)"
  "transitions (added eng (loadThresholds q eng)) = []"
  "published (added eng (loadThresholds q eng)) = []"
  "reloads (added eng (loadThresholds q eng)) = 1"
  by (simp_all add: loadThresholds_def added_def split: db_result.splits option.splits)

lemma loadThresholds_cache:
  "thresholds (loadThresholds q eng) = (case q of Resolved (Some row) \<Rightarrow> Some row | _ \<Rightarrow> thresholds eng)"
  by (simp add: loadThresholds_def split: db_result.splits option.splits)

text \<open>
  The handler either stops after the load (no thresholds) or runs the checks on an
  engine whose alert states and tracker are those of the start.
\<close>

lemma handleTelemetryInsert_cases:
  obtains (stopped) eng0 where
      "thresholds eng = None" "eng0 = loadThresholds (thresholdsQuery env) eng"
      "thresholds eng0 = None"
      "handleTelemetryInsert env data eng
         = perform [Logged LWarn ''Cannot process alerts: thresholds not available''] eng0"
  | (loaded) eng0 th where
      "thresholds eng = None" "eng0 = loadThresholds (thresholdsQuery env) eng"
      "thresholds eng0 = Some th"
      "handleTelemetryInsert env data eng = checkAll env th data eng0"
  | (cached) th where
      "thresholds eng = Some th"
      "handleTelemetryInsert env data eng = checkAll env th data eng"
proof (cases "thresholds eng")
  case (Some th)
  then have "handleTelemetryInsert env data eng = checkAll env th data eng"
    by (simp add: handleTelemetryInsert_def)
  with Some show ?thesis by (rule cached)
next
  case None
  show ?thesis
  proof (cases "thresholds (loadThresholds (thresholdsQuery env) eng)")
    case inner: None
    with None have "handleTelemetryInsert env data eng
         = perform [Logged LWarn ''Cannot process alerts: thresholds not available'']
             (loadThresholds (thresholdsQuery env) eng)"
      by (simp add: handleTelemetryInsert_def Let_def)
    with None inner show ?thesis by (intro stopped [OF _ refl]) simp_all
  next
    case inner: (Some th)
    with None have "handleTelemetryInsert env data eng
         = checkAll env th data (loadThresholds (thresholdsQuery env) eng)"
      by (simp add: handleTelemetryInsert_def Let_def)
    with None inner show ?thesis by (intro loaded [OF _ refl]) simp_all
  qed
qed

lemma added_after_load:
  assumes "effects eng' = effects (loadThresholds q eng) @ es"
  shows "added eng eng' = added eng (loadThresholds q eng) @ es"
proof -
  have "effects eng' = effects eng @ (added eng (loadThresholds q eng) @ es)"
    using assms loadThresholds_step(4) [of q eng] by simp
  then show ?thesis by (rule added_grown)
qed

lemma handleTelemetryInsert_replay:
  "effects (handleTelemetryInsert env data eng)
     = effects eng @ added eng (handleTelemetryInsert env data eng)
   \<and> replay (isActive (alertStates eng k))
        (directionsOf k (added eng (handleTelemetryInsert env data eng)))
       = Some (isActive (alertStates (handleTelemetryInsert env data eng) k))"
proof (cases rule: handleTelemetryInsert_cases [of eng env data])
  case (stopped eng0)
  have e: "effects (handleTelemetryInsert env data eng)
      = effects (loadThresholds (thresholdsQuery env) eng)
        @ [Logged LWarn ''Cannot process alerts: thresholds not available'']"
    using stopped by simp
  from added_after_load [OF e] e stopped show ?thesis
    by (simp add: loadThresholds_step directionsOf_def)
next
  case (loaded eng0 th)
  have st: "alertStep UNIV eng0 (checkAll env th data eng0)"
    by (rule checkAll_step)
  then have e: "effects (handleTelemetryInsert env data eng)
      = effects (loadThresholds (thresholdsQuery env) eng) @ added eng0 (checkAll env th data eng0)"
    using loaded by (simp add: alertStep_def)
  from st have r: "replay (isActive (alertStates eng0 k))
        (directionsOf k (added eng0 (checkAll env th data eng0)))
       = Some (isActive (alertStates (checkAll env th data eng0) k))"
    by (simp add: alertStep_def)
  from added_after_load [OF e] e r loaded show ?thesis
    by (simp add: loadThresholds_step directionsOf_def)
next
  case (cached th)
  have "alertStep UNIV eng (checkAll env th data eng)"
    by (rule checkAll_step)
  with cached show ?thesis by (simp add: alertStep_def)
qed

lemma handleTelemetryInsert_reloads:
  "reloads (added eng (handleTelemetryInsert env data eng))
     = (if thresholds eng = None then 1 else 0)"
proof (cases rule: handleTelemetryInsert_cases [of eng env data])
  case (stopped eng0)
  have e: "effects (handleTelemetryInsert env data eng)
      = effects (loadThresholds (thresholdsQuery env) eng)
        @ [Logged LWarn ''Cannot process alerts: thresholds not available'']"
    using stopped by simp
  from added_after_load [OF e] stopped show ?thesis
    by (simp add: loadThresholds_step)
next
  case (loaded eng0 th)
  have st: "alertStep UNIV eng0 (checkAll env th data eng0)"
    by (rule checkAll_step)
  then have e: "effects (handleTelemetryInsert env data eng)
      = effects (loadThresholds (thresholdsQuery env) eng) @ added eng0 (checkAll env th data eng0)"
    using loaded by (simp add: alertStep_def)
  from st have "reloads (added eng0 (checkAll env th data eng0)) = 0"
    by (simp add: alertStep_def)
  with added_after_load [OF e] loaded show ?thesis
    by (simp add: loadThresholds_step)
next
  case (cached th)
  have "alertStep UNIV eng (checkAll env th data eng)"
    by (rule checkAll_step)
  with cached show ?thesis by (simp add: alertStep_def)
qed

lemma handleTelemetryInsert_without_gain:
  assumes "dailyHoneyGainG data = None"
  shows "alertStates (handleTelemetryInsert env data eng) HONEY_GAIN_LOW
           = alertStates eng HONEY_GAIN_LOW
       \<and> directionsOf HONEY_GAIN_LOW (added eng (handleTelemetryInsert env data eng)) = []"
proof (cases rule: handleTelemetryInsert_cases [of eng env data])
  case (stopped eng0)
  have e: "effects (handleTelemetryInsert env data eng)
      = effects (loadThresholds (thresholdsQuery env) eng)
        @ [Logged LWarn ''Cannot process alerts: thresholds not available'']"
    using stopped by simp
  from added_after_load [OF e] stopped show ?thesis
    by (simp add: loadThresholds_step directionsOf_def)
next
  case (loaded eng0 th)
  have st: "alertStep (- {HONEY_GAIN_LOW}) eng0 (checkAll env th data eng0)"
    using assms by (rule checkAll_without_gain)
  then have e: "effects (handleTelemetryInsert env data eng)
      = effects (loadThresholds (thresholdsQuery env) eng) @ added eng0 (checkAll env th data eng0)"
    using loaded by (simp add: alertStep_def)
  from st have "alertStates (checkAll env th data eng0) HONEY_GAIN_LOW = alertStates eng0 HONEY_GAIN_LOW"
      and "directionsOf HONEY_GAIN_LOW (added eng0 (checkAll env th data eng0)) = []"
    by (simp_all add: alertStep_def)
  with added_after_load [OF e] loaded show ?thesis
    by (simp add: loadThresholds_step directionsOf_def)
next
  case (cached th)
  have "alertStep (- {HONEY_GAIN_LOW}) eng (checkAll env th data eng)"
    using assms by (rule checkAll_without_gain)
  with cached show ?thesis by (simp add: alertStep_def)
qed

subsection \<open>Runs\<close>

lemma run_replay:
  assumes "replay False (directionsOf k (effects eng)) = Some (isActive (alertStates eng k))"
  shows "replay False (directionsOf k (effects (run steps eng)))
           = Some (isActive (alertStates (run steps eng) k))"
  using assms
proof (induction steps arbitrary: eng)
  case Nil
  then show ?case by simp
next
  case (Cons step steps)
  obtain env data where step: "step = (env, data)"
    by (cases step)
  from handleTelemetryInsert_replay [of env data eng k] Cons.prems
  have "replay False (directionsOf k (effects (handleTelemetryInsert env data eng)))
          = Some (isActive (alertStates (handleTelemetryInsert env data eng) k))"
    by (simp add: replay_append)
  from Cons.IH [OF this] show ?case
    by (simp add: step)
qed

lemma service_replay:
  "replay False (directionsOf k (effects (service q steps)))
     = Some (isActive (alertStates (service q steps) k))"
  unfolding service_def
proof (rule run_replay)
  show "replay False (directionsOf k (effects (onModuleInit q initialEngine)))
          = Some (isActive (alertStates (onModuleInit q initialEngine) k))"
    by (simp add: onModuleInit_def loadThresholds_def initialEngine_def initialState_def
             split: db_result.splits option.splits)
qed

text \<open>The TEMP_HIGH half of the temperature check, seen through the whole check.\<close>

lemma checkTemperatureAlerts_high:
  obtains eng1 where
    "eng1 =
      (if temperature data > tempMax th \<and> \<not> isActive (alertStates eng TEMP_HIGH)
       then triggerAlert (sink env TEMP_HIGH) TEMP_HIGH
              (Message ''Hive temperature critical'' [temperature data, tempMax th])
              (temperature data) eng
       else if temperature data < mul64 (tempMax th) (sub64 1 ALERT_HYSTERESIS_PERCENT)
                 \<and> isActive (alertStates eng TEMP_HIGH)
       then clearAlert (sink env TEMP_HIGH) TEMP_HIGH
              (Message ''Temperature normalized'' [temperature data]) (temperature data) eng
       else eng)"
    "alertStates (checkTemperatureAlerts env th data eng) TEMP_HIGH = alertStates eng1 TEMP_HIGH"
    "directionsOf TEMP_HIGH (added eng (checkTemperatureAlerts env th data eng))
       = directionsOf TEMP_HIGH (added eng eng1)"
proof -
  define eng1 where "eng1 =
    (if temperature data > tempMax th \<and> \<not> isActive (alertStates eng TEMP_HIGH)
     then triggerAlert (sink env TEMP_HIGH) TEMP_HIGH
            (Message ''Hive temperature critical'' [temperature data, tempMax th])
            (temperature data) eng
     else if temperature data < mul64 (tempMax th) (sub64 1 ALERT_HYSTERESIS_PERCENT)
               \<and> isActive (alertStates eng TEMP_HIGH)
     then clearAlert (sink env TEMP_HIGH) TEMP_HIGH
            (Message ''Temperature normalized'' [temperature data]) (temperature data) eng
     else eng)"
  have a: "alertStep {TEMP_HIGH} eng eng1"
    unfolding eng1_def by (rule guarded_step)
  have b: "alertStep {TEMP_LOW} eng1 (checkTemperatureAlerts env th data eng)"
    unfolding checkTemperatureAlerts_def Let_def eng1_def [symmetric] by (rule guarded_step)
  from a b have "effects (checkTemperatureAlerts env th data eng)
      = effects eng @ (added eng eng1 @ added eng1 (checkTemperatureAlerts env th data eng))"
    by (simp add: alertStep_def)
  then have "added eng (checkTemperatureAlerts env th data eng)
      = added eng eng1 @ added eng1 (checkTemperatureAlerts env th data eng)"
    by (rule added_grown)
  moreover from b have "directionsOf TEMP_HIGH (added eng1 (checkTemperatureAlerts env th data eng)) = []"
      and s: "alertStates (checkTemperatureAlerts env th data eng) TEMP_HIGH = alertStates eng1 TEMP_HIGH"
    by (simp_all add: alertStep_def)
  ultimately have "directionsOf TEMP_HIGH (added eng (checkTemperatureAlerts env th data eng))
       = directionsOf TEMP_HIGH (added eng eng1)"
    by simp
  with eng1_def s show ?thesis by (rule that)
qed

subsection \<open>Facts used by the examples\<close>

lemma debounced_simps [simp]:
  "debounced now None = False"
  "debounced now (Some t) = (now - t < 300000)"
  by (simp_all add: debounced_def ALERT_DEBOUNCE_MS_def)

lemma not_debounced_iff:
  "(\<forall>t. p = Some t \<longrightarrow> 300000 \<le> now - t) \<longleftrightarrow> \<not> debounced now p"
  by (cases p) auto

lemma sinkAt_fields [simp]:
  "clockNow (sinkAt t ok) = t" "insertResolves (sinkAt t ok) = ok" "clockEmit (sinkAt t ok) = t"
  by (simp_all add: sinkAt_def)

lemma envAt_fields [simp]:
  "sink (envAt t ok) k = sinkAt t ok"
  "thresholdsQuery (envAt t ok) = Resolved (Some DEFAULT_THRESHOLDS)"
  "sink (envNoRow t) k = sinkAt t True"
  "thresholdsQuery (envNoRow t) = Resolved None"
  by (simp_all add: envAt_def envNoRow_def)

lemmas sample_defs =
  calmReading_def DEFAULT_THRESHOLDS_def
  initialEngine_def initialState_def

text \<open>Evaluating the arithmetic on concrete numbers.\<close>

lemma binadeFrom_numeral:
  "binadeFrom (numeral k) a e =
     (if 2 \<le> a then binadeFrom (pred_numeral k) (a / 2) (e + 1)
      else if a < 1 then binadeFrom (pred_numeral k) (a * 2) (e - 1)
      else e)"
  by (simp add: numeral_eq_Suc)

lemmas double_eval =
  roundDouble_def roundAt_def binade_def binadeFrom_numeral roundHalfEven_def pow2_def
  add64_def sub64_def mul64_def div64_def

lemma hysteresis_value:
  "ALERT_HYSTERESIS_PERCENT = 3602879701896397 / 72057594037927936"
  by (simp add: ALERT_HYSTERESIS_PERCENT_def double_eval)

lemmas engine_defs =
  service_def onModuleInit_def loadThresholds_def handleTelemetryInsert_def checkAll_def
  checkTemperatureAlerts_def checkHumidityAlerts_def checkWeightAlerts_def
  checkSoundAlerts_def checkCo2Alerts_def checkSwarmRiskAlerts_def checkBatteryAlerts_def
  checkHoneyGainAlerts_def triggerAlert_def clearAlert_def insertEventLog_def
  hysteresis_value double_eval Let_def added_def

section \<open>The claims\<close>

subsection \<open>C1: a failed audit write and the publish step\<close>

text \<open>
  C1, as stated, says that the event is still emitted when the insert into
  \<^verbatim>\<open>event_logs\<close> fails. It is not: with the seeded thresholds loaded, a reading of
  37 degrees whose insert rejects makes the TEMP_HIGH transition, logs one error and
  publishes nothing.
\<close>

theorem failed_write_still_publishes_counterexample:
  "transitions (added (service (Resolved (Some DEFAULT_THRESHOLDS)) [])
      (handleTelemetryInsert (envAt 0 False) ((calmReading 0)\<lparr>temperature := 37\<rparr>)
         (service (Resolved (Some DEFAULT_THRESHOLDS)) []))) = [(TEMP_HIGH, TRIGGERED)]
   \<and> errorsLogged (added (service (Resolved (Some DEFAULT_THRESHOLDS)) [])
      (handleTelemetryInsert (envAt 0 False) ((calmReading 0)\<lparr>temperature := 37\<rparr>)
         (service (Resolved (Some DEFAULT_THRESHOLDS)) []))) = 1
   \<and> published (added (service (Resolved (Some DEFAULT_THRESHOLDS)) [])
      (handleTelemetryInsert (envAt 0 False) ((calmReading 0)\<lparr>temperature := 37\<rparr>)
         (service (Resolved (Some DEFAULT_THRESHOLDS)) []))) = []"
  by (simp add: engine_defs sample_defs)

text \<open>
  C1, amended: every transition that passes the debounce test attempts the audit write
  first; the event \<^verbatim>\<open>alert.triggered\<close> or \<^verbatim>\<open>alert.cleared\<close> is emitted exactly when
  that write succeeds, and a failed write is caught and logged (one error line) with the
  publish step skipped.
\<close>

theorem publish_only_after_successful_write:
  "(\<not> debounced (clockNow io) (lastTriggeredAt (alertStates eng ty)) \<longrightarrow>
       transitions (added eng (triggerAlert io ty m v eng)) = [(ty, TRIGGERED)]
     \<and> published (added eng (triggerAlert io ty m v eng))
         = (if insertResolves io then [(''alert.triggered'', ty)] else [])
     \<and> errorsLogged (added eng (triggerAlert io ty m v eng))
         = (if insertResolves io then 0 else 1))
 \<and> (isActive (alertStates eng ty)
       \<and> \<not> debounced (clockNow io) (lastClearedAt (alertStates eng ty)) \<longrightarrow>
       transitions (added eng (clearAlert io ty m v eng)) = [(ty, CLEARED)]
     \<and> published (added eng (clearAlert io ty m v eng))
         = (if insertResolves io then [(''alert.cleared'', ty)] else [])
     \<and> errorsLogged (added eng (clearAlert io ty m v eng))
         = (if insertResolves io then 0 else 1))"
  by (simp add: triggerAlert_def clearAlert_def insertEventLog_def Let_def added_def
          split: option.splits)

text \<open>
  The amended C1 at work: a first CO2 trigger whose insert rejects publishes nothing, and
  a clear one minute after a trigger, whose insert resolves, publishes
  \<^verbatim>\<open>alert.cleared\<close>.
\<close>

theorem publish_only_after_successful_write_witness:
  "\<not> debounced (clockNow (sinkAt 0 False)) (lastTriggeredAt (alertStates initialEngine CO2_HIGH))
   \<and> published (added initialEngine
        (triggerAlert (sinkAt 0 False) CO2_HIGH (Message ''CO2 level high'' [1200, 1000]) 1200
           initialEngine)) = []
   \<and> isActive (alertStates
        (triggerAlert (sinkAt 0 True) CO2_HIGH (Message ''CO2 level high'' [1200, 1000]) 1200
           initialEngine) CO2_HIGH)
   \<and> \<not> debounced (clockNow (sinkAt 60000 True)) (lastClearedAt (alertStates
        (triggerAlert (sinkAt 0 True) CO2_HIGH (Message ''CO2 level high'' [1200, 1000]) 1200
           initialEngine) CO2_HIGH))
   \<and> published (added
        (triggerAlert (sinkAt 0 True) CO2_HIGH (Message ''CO2 level high'' [1200, 1000]) 1200
           initialEngine)
        (clearAlert (sinkAt 60000 True) CO2_HIGH (Message ''CO2 level normalized'' [600]) 600
          (triggerAlert (sinkAt 0 True) CO2_HIGH (Message ''CO2 level high'' [1200, 1000]) 1200
             initialEngine))) = [(''alert.cleared'', CO2_HIGH)]"
proof -
  let ?E = "triggerAlert (sinkAt 0 True) CO2_HIGH (Message ''CO2 level high'' [1200, 1000]) 1200
           initialEngine"
  have a: "\<not> debounced (clockNow (sinkAt 0 False)) (lastTriggeredAt (alertStates initialEngine CO2_HIGH))"
    by (simp add: sample_defs)
  have b: "isActive (alertStates ?E CO2_HIGH)"
    by (simp add: triggerAlert_def insertEventLog_def sample_defs Let_def)
  have c: "\<not> debounced (clockNow (sinkAt 60000 True)) (lastClearedAt (alertStates ?E CO2_HIGH))"
    by (simp add: triggerAlert_def insertEventLog_def sample_defs Let_def)
  from publish_only_after_successful_write
         [of "sinkAt 0 False" initialEngine CO2_HIGH "Message ''CO2 level high'' [1200, 1000]" 1200]
       publish_only_after_successful_write
         [of "sinkAt 60000 True" ?E CO2_HIGH "Message ''CO2 level normalized'' [600]" 600]
  show ?thesis using a b c by simp
qed

subsection \<open>C2: the debounce window\<close>

text \<open>
  C2, as stated, asks for 300,000 ms between any two transitions of a kind, whatever
  their directions. The service accepts a CLEARED of TEMP_HIGH one second after its
  TRIGGERED.
\<close>

theorem debounce_across_directions_counterexample:
  "directionsOf TEMP_HIGH (effects (service (Resolved (Some DEFAULT_THRESHOLDS))
      [(envAt 0 True, (calmReading 0)\<lparr>temperature := 37\<rparr>),
       (envAt 1000 True, (calmReading 1000)\<lparr>temperature := 33\<rparr>)])) = [TRIGGERED, CLEARED]
   \<and> clockNow (sink (envAt 1000 True) TEMP_HIGH) - clockNow (sink (envAt 0 True) TEMP_HIGH)
       < ALERT_DEBOUNCE_MS"
  by (simp add: engine_defs sample_defs ALERT_DEBOUNCE_MS_def)

text \<open>
  C2, amended: the window of 300,000 ms is kept per direction. A trigger of a kind is
  accepted exactly when that kind has no earlier trigger or its last accepted trigger
  (\<^verbatim>\<open>lastTriggeredAt\<close>) is at least 300,000 ms old; a clear of an active alert is
  accepted exactly when the kind has no earlier clear or its last accepted clear
  (\<^verbatim>\<open>lastClearedAt\<close>) is at least 300,000 ms old. An accepted transition records its
  instant in the field of its own direction and leaves the other field alone, so the gap
  between a trigger and the clear that follows it is not bounded below.
\<close>

theorem debounce_per_direction:
  "(transitions (added eng (triggerAlert io ty m v eng)) \<noteq> [] \<longleftrightarrow>
      (\<forall>t. lastTriggeredAt (alertStates eng ty) = Some t \<longrightarrow> 300000 \<le> clockNow io - t))
 \<and> (transitions (added eng (clearAlert io ty m v eng)) \<noteq> [] \<longleftrightarrow>
      isActive (alertStates eng ty)
    \<and> (\<forall>t. lastClearedAt (alertStates eng ty) = Some t \<longrightarrow> 300000 \<le> clockNow io - t))
 \<and> (transitions (added eng (triggerAlert io ty m v eng)) \<noteq> [] \<longrightarrow>
      lastTriggeredAt (alertStates (triggerAlert io ty m v eng) ty) = Some (clockNow io))
 \<and> (transitions (added eng (clearAlert io ty m v eng)) \<noteq> [] \<longrightarrow>
      lastClearedAt (alertStates (clearAlert io ty m v eng) ty) = Some (clockNow io))
 \<and> lastClearedAt (alertStates (triggerAlert io ty m v eng) ty) = lastClearedAt (alertStates eng ty)
 \<and> lastTriggeredAt (alertStates (clearAlert io ty m v eng) ty) = lastTriggeredAt (alertStates eng ty)"
  by (simp add: triggerAlert_def clearAlert_def insertEventLog_def Let_def added_def
        ALERT_DEBOUNCE_MS_def not_debounced_iff)

text \<open>
  The amended C2 at work. After a trigger at 0 the clear at 1,000 is accepted; after
  that clear, the trigger at 300,000 is accepted: its last trigger is 300,000 ms old,
  its last clear only 299,000 ms.
\<close>

theorem debounce_per_direction_witness:
  "isActive (alertStates
      (triggerAlert (sinkAt 0 True) SWARM_RISK (Message ''Swarm risk very high'' [90, 70]) 90
         initialEngine) SWARM_RISK)
   \<and> transitions (added
        (triggerAlert (sinkAt 0 True) SWARM_RISK (Message ''Swarm risk very high'' [90, 70]) 90
           initialEngine)
        (clearAlert (sinkAt 1000 True) SWARM_RISK (Message ''Swarm risk normalized'' [10]) 10
          (triggerAlert (sinkAt 0 True) SWARM_RISK (Message ''Swarm risk very high'' [90, 70]) 90
             initialEngine))) \<noteq> []
   \<and> lastTriggeredAt (alertStates
        (clearAlert (sinkAt 1000 True) SWARM_RISK (Message ''Swarm risk normalized'' [10]) 10
          (triggerAlert (sinkAt 0 True) SWARM_RISK (Message ''Swarm risk very high'' [90, 70]) 90
             initialEngine)) SWARM_RISK) = Some 0
   \<and> lastClearedAt (alertStates
        (clearAlert (sinkAt 1000 True) SWARM_RISK (Message ''Swarm risk normalized'' [10]) 10
          (triggerAlert (sinkAt 0 True) SWARM_RISK (Message ''Swarm risk very high'' [90, 70]) 90
             initialEngine)) SWARM_RISK) = Some 1000
   \<and> transitions (added
        (clearAlert (sinkAt 1000 True) SWARM_RISK (Message ''Swarm risk normalized'' [10]) 10
          (triggerAlert (sinkAt 0 True) SWARM_RISK (Message ''Swarm risk very high'' [90, 70]) 90
             initialEngine))
        (triggerAlert (sinkAt 300000 True) SWARM_RISK (Message ''Swarm risk very high'' [95, 70]) 95
          (clearAlert (sinkAt 1000 True) SWARM_RISK (Message ''Swarm risk normalized'' [10]) 10
            (triggerAlert (sinkAt 0 True) SWARM_RISK (Message ''Swarm risk very high'' [90, 70]) 90
               initialEngine)))) \<noteq> []"
proof -
  let ?E1 = "triggerAlert (sinkAt 0 True) SWARM_RISK (Message ''Swarm risk very high'' [90, 70]) 90
         initialEngine"
  let ?E2 = "clearAlert (sinkAt 1000 True) SWARM_RISK (Message ''Swarm risk normalized'' [10]) 10 ?E1"
  have s1: "alertStates ?E1 SWARM_RISK = \<lparr>isActive = True, lastTriggeredAt = Some 0,
      lastClearedAt = None, debounceTimer = None, lastValue = Some 90\<rparr>"
    by (simp add: triggerAlert_def insertEventLog_def sample_defs Let_def)
  have s2: "alertStates ?E2 SWARM_RISK = \<lparr>isActive = False, lastTriggeredAt = Some 0,
      lastClearedAt = Some 1000, debounceTimer = None, lastValue = Some 10\<rparr>"
    by (simp add: clearAlert_def insertEventLog_def s1 Let_def)
  from debounce_per_direction
         [of ?E1 "sinkAt 1000 True" SWARM_RISK "Message ''Swarm risk normalized'' [10]" 10]
       debounce_per_direction
         [of ?E2 "sinkAt 300000 True" SWARM_RISK "Message ''Swarm risk very high'' [95, 70]" 95]
  show ?thesis by (simp add: s1 s2)
qed

subsection \<open>C3: the clear rule of WEIGHT_DROP\<close>

text \<open>
  C3 says that WEIGHT_DROP follows the bad-above clear rule: an active alert is cleared
  only by a rate strictly below \<open>maxWeightDropPerHourKg \<times> (1 - 0.05)\<close>, and at a rate
  equal to that clear threshold it stays active with no transition. The service does
  otherwise at this input: with a threshold of 20 kg per hour the clear threshold is
  exactly 19; readings of 100 kg, 70 kg and 51 kg one hour apart give the rates 30, which
  triggers the alert, and exactly 19, at which the service clears it.
\<close>

theorem weight_drop_clears_at_clear_threshold:
  "mul64 20 (sub64 1 ALERT_HYSTERESIS_PERCENT) = 19
   \<and> div64 (sub64 70 51) (div64 (sub64 7200000 3600000) (mul64 (mul64 1000 60) 60)) = 19
   \<and> directionsOf WEIGHT_DROP (effects
        (service (Resolved (Some (DEFAULT_THRESHOLDS\<lparr>maxWeightDropPerHourKg := 20\<rparr>)))
          [(envAt 0 True, (calmReading 0)\<lparr>weightKg := 100\<rparr>),
           (envAt 3600000 True, (calmReading 3600000)\<lparr>weightKg := 70\<rparr>)])) = [TRIGGERED]
   \<and> directionsOf WEIGHT_DROP (effects
        (service (Resolved (Some (DEFAULT_THRESHOLDS\<lparr>maxWeightDropPerHourKg := 20\<rparr>)))
          [(envAt 0 True, (calmReading 0)\<lparr>weightKg := 100\<rparr>),
           (envAt 3600000 True, (calmReading 3600000)\<lparr>weightKg := 70\<rparr>),
           (envAt 7200000 True, (calmReading 7200000)\<lparr>weightKg := 51\<rparr>)]))
       = [TRIGGERED, CLEARED]
   \<and> \<not> isActive (alertStates
        (service (Resolved (Some (DEFAULT_THRESHOLDS\<lparr>maxWeightDropPerHourKg := 20\<rparr>)))
          [(envAt 0 True, (calmReading 0)\<lparr>weightKg := 100\<rparr>),
           (envAt 3600000 True, (calmReading 3600000)\<lparr>weightKg := 70\<rparr>),
           (envAt 7200000 True, (calmReading 7200000)\<lparr>weightKg := 51\<rparr>)]) WEIGHT_DROP)"
  by (simp add: engine_defs sample_defs)

text \<open>
  The other bad-above checks clear with a strict comparison. CO2_HIGH, with the seeded
  threshold 1000 and so the clear threshold 950, stays active at a reading of exactly 950.
\<close>

lemma co2_stays_active_at_clear_threshold:
  "mul64 1000 (sub64 1 ALERT_HYSTERESIS_PERCENT) = 950
   \<and> directionsOf CO2_HIGH (effects (service (Resolved (Some DEFAULT_THRESHOLDS))
        [(envAt 0 True, (calmReading 0)\<lparr>co2Ppm := 1200\<rparr>),
         (envAt 60000 True, (calmReading 60000)\<lparr>co2Ppm := 950\<rparr>)])) = [TRIGGERED]
   \<and> isActive (alertStates (service (Resolved (Some DEFAULT_THRESHOLDS))
        [(envAt 0 True, (calmReading 0)\<lparr>co2Ppm := 1200\<rparr>),
         (envAt 60000 True, (calmReading 60000)\<lparr>co2Ppm := 950\<rparr>)]) CO2_HIGH)"
  by (simp add: engine_defs sample_defs)

subsection \<open>C4: the dead band of TEMP_HIGH\<close>

text \<open>
  C4, as stated, starts from any inactive state with no recent trigger and says that,
  once active, exactly the values strictly below 34.2 clear. It fails twice.

  A state with no recent trigger can still have a recent clear: TEMP_HIGH triggered at 0
  and cleared at 400,000 is inactive at 401,000 with its last trigger 401,000 ms old; the
  reading of 36.1 triggers, and the reading of 34 at 402,000 makes no transition, since
  the last clear is 2,000 ms old.

  And the clear line that the service computes, \<open>36 * (1 - 0.05)\<close> in doubles, is
  34.199999999999996, the double just below the double 34.2: a reading equal to it is
  strictly below 34.2 and does not clear.
\<close>

theorem dead_band_clear_counterexample:
  "\<not> isActive (alertStates (service (Resolved (Some DEFAULT_THRESHOLDS))
        [(envAt 0 True, (calmReading 0)\<lparr>temperature := 37\<rparr>),
         (envAt 400000 True, (calmReading 400000)\<lparr>temperature := 33\<rparr>)]) TEMP_HIGH)
   \<and> \<not> debounced 401000 (lastTriggeredAt (alertStates (service (Resolved (Some DEFAULT_THRESHOLDS))
        [(envAt 0 True, (calmReading 0)\<lparr>temperature := 37\<rparr>),
         (envAt 400000 True, (calmReading 400000)\<lparr>temperature := 33\<rparr>)]) TEMP_HIGH))
   \<and> directionsOf TEMP_HIGH (effects (service (Resolved (Some DEFAULT_THRESHOLDS))
        [(envAt 0 True, (calmReading 0)\<lparr>temperature := 37\<rparr>),
         (envAt 400000 True, (calmReading 400000)\<lparr>temperature := 33\<rparr>),
         (envAt 401000 True, (calmReading 401000)\<lparr>temperature := roundDouble (361 / 10)\<rparr>)]))
       = [TRIGGERED, CLEARED, TRIGGERED]
   \<and> 34 < roundDouble (342 / 10)
   \<and> directionsOf TEMP_HIGH (effects (service (Resolved (Some DEFAULT_THRESHOLDS))
        [(envAt 0 True, (calmReading 0)\<lparr>temperature := 37\<rparr>),
         (envAt 400000 True, (calmReading 400000)\<lparr>temperature := 33\<rparr>),
         (envAt 401000 True, (calmReading 401000)\<lparr>temperature := roundDouble (361 / 10)\<rparr>),
         (envAt 402000 True, (calmReading 402000)\<lparr>temperature := 34\<rparr>)]))
       = [TRIGGERED, CLEARED, TRIGGERED]
   \<and> isActive (alertStates (service (Resolved (Some DEFAULT_THRESHOLDS))
        [(envAt 0 True, (calmReading 0)\<lparr>temperature := 37\<rparr>),
         (envAt 400000 True, (calmReading 400000)\<lparr>temperature := 33\<rparr>),
         (envAt 401000 True, (calmReading 401000)\<lparr>temperature := roundDouble (361 / 10)\<rparr>),
         (envAt 402000 True, (calmReading 402000)\<lparr>temperature := 34\<rparr>)]) TEMP_HIGH)
   \<and> 4813222101752217 / 140737488355328 < roundDouble (342 / 10)
   \<and> directionsOf TEMP_HIGH (effects (service (Resolved (Some DEFAULT_THRESHOLDS))
        [(envAt 0 True, (calmReading 0)\<lparr>temperature := roundDouble (361 / 10)\<rparr>),
         (envAt 60000 True,
          (calmReading 60000)\<lparr>temperature := 4813222101752217 / 140737488355328\<rparr>)]))
       = [TRIGGERED]
   \<and> isActive (alertStates (service (Resolved (Some DEFAULT_THRESHOLDS))
        [(envAt 0 True, (calmReading 0)\<lparr>temperature := roundDouble (361 / 10)\<rparr>),
         (envAt 60000 True,
          (calmReading 60000)\<lparr>temperature := 4813222101752217 / 140737488355328\<rparr>)]) TEMP_HIGH)"
  by (simp add: engine_defs sample_defs)

text \<open>
  C4, amended: for TEMP_HIGH with threshold 36.0 and hysteresis 0.05, starting inactive
  with no trigger in the last five minutes, a reading of 36.1 makes a TRIGGERED
  transition and the alert is active; once active, every reading between the doubles
  34.2 and 36.1 makes no transition and leaves the state as it is; and a CLEARED
  transition is made exactly for the values strictly below the computed clear threshold
  \<open>36.0 * (1 - 0.05)\<close>, which in double arithmetic is 34.199999999999996 (the double
  just below 34.2), that arrive when the kind has had no clear in the last five minutes.
\<close>

theorem temp_high_dead_band:
  assumes "tempMax th = 36"
  shows "(temperature data = roundDouble (361 / 10) \<and> \<not> isActive (alertStates eng TEMP_HIGH)
            \<and> \<not> debounced (clockNow (sink env TEMP_HIGH))
                  (lastTriggeredAt (alertStates eng TEMP_HIGH)) \<longrightarrow>
            directionsOf TEMP_HIGH (added eng (checkTemperatureAlerts env th data eng)) = [TRIGGERED]
          \<and> isActive (alertStates (checkTemperatureAlerts env th data eng) TEMP_HIGH))
       \<and> (isActive (alertStates eng TEMP_HIGH) \<and> roundDouble (342 / 10) \<le> temperature data
            \<and> temperature data \<le> roundDouble (361 / 10) \<longrightarrow>
            directionsOf TEMP_HIGH (added eng (checkTemperatureAlerts env th data eng)) = []
          \<and> alertStates (checkTemperatureAlerts env th data eng) TEMP_HIGH
              = alertStates eng TEMP_HIGH)
       \<and> (isActive (alertStates eng TEMP_HIGH) \<longrightarrow>
            directionsOf TEMP_HIGH (added eng (checkTemperatureAlerts env th data eng))
              = (if temperature data < 4813222101752217 / 140737488355328
                    \<and> \<not> debounced (clockNow (sink env TEMP_HIGH))
                          (lastClearedAt (alertStates eng TEMP_HIGH))
                 then [CLEARED] else []))
       \<and> mul64 36 (sub64 1 ALERT_HYSTERESIS_PERCENT) = 4813222101752217 / 140737488355328
       \<and> roundDouble (342 / 10) = 4813222101752218 / 140737488355328"
proof -
  have line: "mul64 36 (sub64 1 ALERT_HYSTERESIS_PERCENT) = 4813222101752217 / 140737488355328"
    by (simp add: hysteresis_value double_eval)
  have c: "mul64 (tempMax th) (sub64 1 ALERT_HYSTERESIS_PERCENT)
             = 4813222101752217 / 140737488355328"
    using assms line by simp
  have lo: "roundDouble (342 / 10) = 4813222101752218 / 140737488355328"
    by (simp add: double_eval)
  have hi: "roundDouble (361 / 10) = 5080623329627341 / 140737488355328"
    by (simp add: double_eval)
  show ?thesis
  proof (rule checkTemperatureAlerts_high [where data = data and th = th and eng = eng and env = env])
    fix eng1
    assume e: "eng1 =
      (if temperature data > tempMax th \<and> \<not> isActive (alertStates eng TEMP_HIGH)
       then triggerAlert (sink env TEMP_HIGH) TEMP_HIGH
              (Message ''Hive temperature critical'' [temperature data, tempMax th])
              (temperature data) eng
       else if temperature data < mul64 (tempMax th) (sub64 1 ALERT_HYSTERESIS_PERCENT)
                 \<and> isActive (alertStates eng TEMP_HIGH)
       then clearAlert (sink env TEMP_HIGH) TEMP_HIGH
              (Message ''Temperature normalized'' [temperature data]) (temperature data) eng
       else eng)"
      and s: "alertStates (checkTemperatureAlerts env th data eng) TEMP_HIGH
                = alertStates eng1 TEMP_HIGH"
      and d: "directionsOf TEMP_HIGH (added eng (checkTemperatureAlerts env th data eng))
                = directionsOf TEMP_HIGH (added eng eng1)"
    show ?thesis
      unfolding s d e c line lo hi
      using assms
      by (simp add: triggerAlert_def clearAlert_def insertEventLog_def Let_def added_def
            split: option.splits)
  qed
qed

text \<open>
  The amended C4 at work, on the fresh engine with the seeded row: 36.1 triggers; then
  35 changes nothing; then 34.1 clears.
\<close>

theorem temp_high_dead_band_witness:
  "tempMax DEFAULT_THRESHOLDS = 36
   \<and> \<not> isActive (alertStates initialEngine TEMP_HIGH)
   \<and> \<not> debounced (clockNow (sink (envAt 0 True) TEMP_HIGH))
         (lastTriggeredAt (alertStates initialEngine TEMP_HIGH))
   \<and> directionsOf TEMP_HIGH (added initialEngine
        (checkTemperatureAlerts (envAt 0 True) DEFAULT_THRESHOLDS
           ((calmReading 0)\<lparr>temperature := roundDouble (361 / 10)\<rparr>) initialEngine)) = [TRIGGERED]
   \<and> isActive (alertStates
        (checkTemperatureAlerts (envAt 0 True) DEFAULT_THRESHOLDS
           ((calmReading 0)\<lparr>temperature := roundDouble (361 / 10)\<rparr>) initialEngine) TEMP_HIGH)
   \<and> roundDouble (342 / 10) \<le> 35 \<and> 35 \<le> roundDouble (361 / 10)
   \<and> directionsOf TEMP_HIGH (added
        (checkTemperatureAlerts (envAt 0 True) DEFAULT_THRESHOLDS
           ((calmReading 0)\<lparr>temperature := roundDouble (361 / 10)\<rparr>) initialEngine)
        (checkTemperatureAlerts (envAt 60000 True) DEFAULT_THRESHOLDS
           ((calmReading 60000)\<lparr>temperature := 35\<rparr>)
           (checkTemperatureAlerts (envAt 0 True) DEFAULT_THRESHOLDS
              ((calmReading 0)\<lparr>temperature := roundDouble (361 / 10)\<rparr>) initialEngine))) = []
   \<and> directionsOf TEMP_HIGH (added
        (checkTemperatureAlerts (envAt 0 True) DEFAULT_THRESHOLDS
           ((calmReading 0)\<lparr>temperature := roundDouble (361 / 10)\<rparr>) initialEngine)
        (checkTemperatureAlerts (envAt 120000 True) DEFAULT_THRESHOLDS
           ((calmReading 120000)\<lparr>temperature := roundDouble (341 / 10)\<rparr>)
           (checkTemperatureAlerts (envAt 0 True) DEFAULT_THRESHOLDS
              ((calmReading 0)\<lparr>temperature := roundDouble (361 / 10)\<rparr>) initialEngine))) = [CLEARED]"
proof -
  let ?E = "checkTemperatureAlerts (envAt 0 True) DEFAULT_THRESHOLDS
           ((calmReading 0)\<lparr>temperature := roundDouble (361 / 10)\<rparr>) initialEngine"
  have t: "tempMax DEFAULT_THRESHOLDS = 36"
    by (simp add: DEFAULT_THRESHOLDS_def)
  have i: "\<not> isActive (alertStates initialEngine TEMP_HIGH)"
      "lastTriggeredAt (alertStates initialEngine TEMP_HIGH) = None"
    by (simp_all add: initialEngine_def initialState_def)
  have s: "isActive (alertStates ?E TEMP_HIGH)" "lastClearedAt (alertStates ?E TEMP_HIGH) = None"
    by (simp_all add: engine_defs sample_defs)
  have r: "temperature ((calmReading 0)\<lparr>temperature := roundDouble (361 / 10)\<rparr>) = roundDouble (361 / 10)"
      "temperature ((calmReading 60000)\<lparr>temperature := 35\<rparr>) = 35"
      "temperature ((calmReading 120000)\<lparr>temperature := roundDouble (341 / 10)\<rparr>) = roundDouble (341 / 10)"
    by simp_all
  have v: "roundDouble (171 / 5) = 2406611050876109 / 70368744177664"
      "roundDouble (361 / 10) = 5080623329627341 / 140737488355328"
      "roundDouble (341 / 10) = 4799148352916685 / 140737488355328"
    by (simp_all add: double_eval)
  from temp_high_dead_band [OF t, of "(calmReading 0)\<lparr>temperature := roundDouble (361 / 10)\<rparr>" initialEngine "envAt 0 True"]
       temp_high_dead_band [OF t, of "(calmReading 60000)\<lparr>temperature := 35\<rparr>" ?E "envAt 60000 True"]
       temp_high_dead_band [OF t, of "(calmReading 120000)\<lparr>temperature := roundDouble (341 / 10)\<rparr>" ?E "envAt 120000 True"]
  show ?thesis
    using t i s r by (simp add: v)
qed

subsection \<open>C5: a debounced trigger\<close>

text \<open>
  C5: when a trigger for a kind is debounce-suppressed (\<^verbatim>\<open>lastTriggeredAt\<close> is set and
  less than five minutes old), nothing changes for that kind: every alert state
  (\<^verbatim>\<open>isActive\<close>, \<^verbatim>\<open>lastTriggeredAt\<close>, \<^verbatim>\<open>lastClearedAt\<close>, \<^verbatim>\<open>lastValue\<close>), the weight
  tracker and the cached thresholds are as before, no audit write is attempted and no
  event is published.
\<close>

theorem debounced_trigger_has_no_effect:
  assumes "lastTriggeredAt (alertStates eng ty) = Some t"
      and "clockNow io - t < ALERT_DEBOUNCE_MS"
  shows "alertStates (triggerAlert io ty m v eng) = alertStates eng
       \<and> lastWeight (triggerAlert io ty m v eng) = lastWeight eng
       \<and> lastWeightTime (triggerAlert io ty m v eng) = lastWeightTime eng
       \<and> thresholds (triggerAlert io ty m v eng) = thresholds eng
       \<and> transitions (added eng (triggerAlert io ty m v eng)) = []
       \<and> published (added eng (triggerAlert io ty m v eng)) = []"
  using assms by (simp add: triggerAlert_def debounced_def)

text \<open>
  C5 at work: TEMP_HIGH triggered at 0 and cleared at 1,000; the trigger at 2,000 is
  suppressed and the state still shows the clear, with its value 33.
\<close>

theorem debounced_trigger_has_no_effect_witness:
  "lastTriggeredAt (alertStates
      (clearAlert (sinkAt 1000 True) TEMP_HIGH (Message ''Temperature normalized'' [33]) 33
        (triggerAlert (sinkAt 0 True) TEMP_HIGH (Message ''Hive temperature critical'' [37, 36]) 37
           initialEngine)) TEMP_HIGH) = Some 0
   \<and> clockNow (sinkAt 2000 True) - 0 < ALERT_DEBOUNCE_MS
   \<and> alertStates (triggerAlert (sinkAt 2000 True) TEMP_HIGH (Message ''Hive temperature critical'' [38, 36]) 38
      (clearAlert (sinkAt 1000 True) TEMP_HIGH (Message ''Temperature normalized'' [33]) 33
        (triggerAlert (sinkAt 0 True) TEMP_HIGH (Message ''Hive temperature critical'' [37, 36]) 37
           initialEngine))) TEMP_HIGH
     = \<lparr>isActive = False, lastTriggeredAt = Some 0, lastClearedAt = Some 1000,
        debounceTimer = None, lastValue = Some 33\<rparr>"
proof -
  let ?E = "clearAlert (sinkAt 1000 True) TEMP_HIGH (Message ''Temperature normalized'' [33]) 33
        (triggerAlert (sinkAt 0 True) TEMP_HIGH (Message ''Hive temperature critical'' [37, 36]) 37
           initialEngine)"
  have a: "lastTriggeredAt (alertStates ?E TEMP_HIGH) = Some 0"
    by (simp add: triggerAlert_def clearAlert_def insertEventLog_def sample_defs Let_def)
  have b: "clockNow (sinkAt 2000 True) - 0 < ALERT_DEBOUNCE_MS"
    by (simp add: ALERT_DEBOUNCE_MS_def)
  have c: "alertStates ?E TEMP_HIGH = \<lparr>isActive = False, lastTriggeredAt = Some 0,
        lastClearedAt = Some 1000, debounceTimer = None, lastValue = Some 33\<rparr>"
    by (simp add: triggerAlert_def clearAlert_def insertEventLog_def sample_defs Let_def)
  from debounced_trigger_has_no_effect [OF a b, of "Message ''Hive temperature critical'' [38, 36]" 38]
  show ?thesis using a b c by simp
qed

subsection \<open>C6: the weight tracker\<close>

text \<open>
  C6: for every reading that the engine processes (thresholds are cached, or the one
  reload of the handler brings a row), the weight tracker holds that reading's weight and
  timestamp afterwards. The weight check itself writes both slots on every call,
  whether or not the rate was evaluated and whether or not a transition was made.
\<close>

theorem tracker_overwritten_by_every_reading:
  "lastWeight (checkWeightAlerts env th data eng) = Some (weightKg data)
   \<and> lastWeightTime (checkWeightAlerts env th data eng) = Some (recordedAt data)
   \<and> (thresholds eng \<noteq> None \<or> (\<exists>row. thresholdsQuery env = Resolved (Some row)) \<longrightarrow>
        lastWeight (handleTelemetryInsert env data eng) = Some (weightKg data)
      \<and> lastWeightTime (handleTelemetryInsert env data eng) = Some (recordedAt data))"
proof (cases rule: handleTelemetryInsert_cases [of eng env data])
  case (stopped eng0)
  then have "thresholds eng = None"
      and "\<not> (\<exists>row. thresholdsQuery env = Resolved (Some row))"
    by (auto simp: loadThresholds_cache)
  then show ?thesis by (simp add: checkWeightAlerts_tracker)
next
  case (loaded eng0 th')
  then show ?thesis by (simp add: checkWeightAlerts_tracker checkAll_tracker)
next
  case (cached th')
  then show ?thesis by (simp add: checkWeightAlerts_tracker checkAll_tracker)
qed

text \<open>
  C6 at work: of three readings the second is a drop that triggers WEIGHT_DROP and the
  third comes two hours later, so its rate is not evaluated; the tracker holds the third.
\<close>

theorem tracker_overwritten_by_every_reading_witness:
  "thresholds (service (Resolved (Some DEFAULT_THRESHOLDS))
      [(envAt 0 True, calmReading 0),
       (envAt 1800000 True, (calmReading 1800000)\<lparr>weightKg := 39\<rparr>)]) \<noteq> None
   \<and> directionsOf WEIGHT_DROP (effects (service (Resolved (Some DEFAULT_THRESHOLDS))
      [(envAt 0 True, calmReading 0),
       (envAt 1800000 True, (calmReading 1800000)\<lparr>weightKg := 39\<rparr>)])) = [TRIGGERED]
   \<and> lastWeight (handleTelemetryInsert (envAt 9000000 True)
        ((calmReading 9000000)\<lparr>weightKg := 38\<rparr>)
        (service (Resolved (Some DEFAULT_THRESHOLDS))
          [(envAt 0 True, calmReading 0),
           (envAt 1800000 True, (calmReading 1800000)\<lparr>weightKg := 39\<rparr>)])) = Some 38
   \<and> lastWeightTime (handleTelemetryInsert (envAt 9000000 True)
        ((calmReading 9000000)\<lparr>weightKg := 38\<rparr>)
        (service (Resolved (Some DEFAULT_THRESHOLDS))
          [(envAt 0 True, calmReading 0),
           (envAt 1800000 True, (calmReading 1800000)\<lparr>weightKg := 39\<rparr>)])) = Some 9000000"
proof -
  let ?E = "service (Resolved (Some DEFAULT_THRESHOLDS))
      [(envAt 0 True, calmReading 0),
       (envAt 1800000 True, (calmReading 1800000)\<lparr>weightKg := 39\<rparr>)]"
  have a: "thresholds ?E \<noteq> None"
    by (simp add: engine_defs sample_defs)
  have b: "directionsOf WEIGHT_DROP (effects ?E) = [TRIGGERED]"
    by (simp add: engine_defs sample_defs)
  from tracker_overwritten_by_every_reading
         [of "envAt 9000000 True" DEFAULT_THRESHOLDS "(calmReading 9000000)\<lparr>weightKg := 38\<rparr>" ?E]
  show ?thesis using a b by (simp add: calmReading_def)
qed

subsection \<open>C7: no thresholds\<close>

text \<open>
  C7: when no thresholds are cached, the handler sends exactly one query for them. If the
  query brings no row (or is rejected), the reading changes nothing: every alert state,
  the weight tracker and the empty cache are as before, no transition is made and no
  event published; the handler returns normally. Since the cache is still empty, the
  next reading, whatever it is, sends the query again, once.
\<close>

theorem missing_thresholds_is_a_noop:
  assumes "thresholds eng = None"
      and "thresholdsQuery env = Resolved None \<or> thresholdsQuery env = Rejected e"
  shows "reloads (added eng (handleTelemetryInsert env data eng)) = 1
       \<and> alertStates (handleTelemetryInsert env data eng) = alertStates eng
       \<and> lastWeight (handleTelemetryInsert env data eng) = lastWeight eng
       \<and> lastWeightTime (handleTelemetryInsert env data eng) = lastWeightTime eng
       \<and> thresholds (handleTelemetryInsert env data eng) = None
       \<and> transitions (added eng (handleTelemetryInsert env data eng)) = []
       \<and> published (added eng (handleTelemetryInsert env data eng)) = []
       \<and> reloads (added (handleTelemetryInsert env data eng)
            (handleTelemetryInsert env' data' (handleTelemetryInsert env data eng))) = 1"
proof -
  have "thresholds (loadThresholds (thresholdsQuery env) eng) = None"
    using assms by (auto simp: loadThresholds_cache)
  with assms(1) have h: "handleTelemetryInsert env data eng
      = perform [Logged LWarn ''Cannot process alerts: thresholds not available'']
          (loadThresholds (thresholdsQuery env) eng)"
    by (simp add: handleTelemetryInsert_def Let_def)
  have t: "thresholds (handleTelemetryInsert env data eng) = None"
    using assms by (auto simp: h loadThresholds_cache)
  have e: "effects (handleTelemetryInsert env data eng)
      = effects (loadThresholds (thresholdsQuery env) eng)
        @ [Logged LWarn ''Cannot process alerts: thresholds not available'']"
    by (simp add: h)
  have n: "reloads (added (handleTelemetryInsert env data eng)
            (handleTelemetryInsert env' data' (handleTelemetryInsert env data eng))) = 1"
    using t by (simp add: handleTelemetryInsert_reloads)
  from added_after_load [OF e] t n show ?thesis
    by (simp add: h loadThresholds_step)
qed

text \<open>
  C7 at work: a fresh engine and a table without a row; a hot reading does nothing but
  one query, and so does the next.
\<close>

theorem missing_thresholds_is_a_noop_witness:
  "thresholds initialEngine = None
   \<and> thresholdsQuery (envNoRow 0) = Resolved None
   \<and> reloads (added initialEngine
        (handleTelemetryInsert (envNoRow 0) ((calmReading 0)\<lparr>temperature := 40\<rparr>) initialEngine)) = 1
   \<and> alertStates
        (handleTelemetryInsert (envNoRow 0) ((calmReading 0)\<lparr>temperature := 40\<rparr>) initialEngine)
       = alertStates initialEngine
   \<and> transitions (added initialEngine
        (handleTelemetryInsert (envNoRow 0) ((calmReading 0)\<lparr>temperature := 40\<rparr>) initialEngine)) = []
   \<and> reloads (added
        (handleTelemetryInsert (envNoRow 0) ((calmReading 0)\<lparr>temperature := 40\<rparr>) initialEngine)
        (handleTelemetryInsert (envAt 60000 True) ((calmReading 60000)\<lparr>temperature := 40\<rparr>)
          (handleTelemetryInsert (envNoRow 0) ((calmReading 0)\<lparr>temperature := 40\<rparr>)
             initialEngine))) = 1"
proof -
  have a: "thresholds initialEngine = None"
    by (simp add: initialEngine_def)
  have b: "thresholdsQuery (envNoRow 0) = Resolved None \<or> thresholdsQuery (envNoRow 0) = Rejected DbError"
    by simp
  from missing_thresholds_is_a_noop
         [OF a b, of "(calmReading 0)\<lparr>temperature := 40\<rparr>" "envAt 60000 True"
            "(calmReading 60000)\<lparr>temperature := 40\<rparr>"]
  show ?thesis using a by simp
qed

subsection \<open>C8: a reading without the daily honey gain\<close>

text \<open>
  C8: for every reading whose daily honey gain is absent, the HONEY_GAIN_LOW check
  returns the engine as it got it, and the whole handler leaves the HONEY_GAIN_LOW state
  unchanged and makes no TRIGGERED or CLEARED transition of that kind, whatever the
  threshold and whether or not the alert is active.
\<close>

theorem absent_honey_gain_is_skipped:
  assumes "dailyHoneyGainG data = None"
  shows "checkHoneyGainAlerts env th data eng = eng
       \<and> alertStates (handleTelemetryInsert env data eng) HONEY_GAIN_LOW
           = alertStates eng HONEY_GAIN_LOW
       \<and> directionsOf HONEY_GAIN_LOW (added eng (handleTelemetryInsert env data eng)) = []"
  using assms handleTelemetryInsert_without_gain [OF assms, of env eng]
  by (simp add: checkHoneyGainAlerts_def)

text \<open>
  C8 at work: the honey-gain alert is active (a gain of \<open>-300\<close> was below the seeded
  \<open>-200\<close>); a later reading without the field leaves it active with its old value and
  adds no transition.
\<close>

theorem absent_honey_gain_is_skipped_witness:
  "dailyHoneyGainG ((calmReading 600000)\<lparr>dailyHoneyGainG := None\<rparr>) = None
   \<and> isActive (alertStates (service (Resolved (Some DEFAULT_THRESHOLDS))
        [(envAt 0 True, (calmReading 0)\<lparr>dailyHoneyGainG := Some (- 300)\<rparr>)]) HONEY_GAIN_LOW)
   \<and> alertStates (handleTelemetryInsert (envAt 600000 True)
          ((calmReading 600000)\<lparr>dailyHoneyGainG := None\<rparr>)
          (service (Resolved (Some DEFAULT_THRESHOLDS))
            [(envAt 0 True, (calmReading 0)\<lparr>dailyHoneyGainG := Some (- 300)\<rparr>)])) HONEY_GAIN_LOW
       = \<lparr>isActive = True, lastTriggeredAt = Some 0, lastClearedAt = None,
          debounceTimer = None, lastValue = Some (- 300)\<rparr>
   \<and> directionsOf HONEY_GAIN_LOW (added
          (service (Resolved (Some DEFAULT_THRESHOLDS))
            [(envAt 0 True, (calmReading 0)\<lparr>dailyHoneyGainG := Some (- 300)\<rparr>)])
          (handleTelemetryInsert (envAt 600000 True)
            ((calmReading 600000)\<lparr>dailyHoneyGainG := None\<rparr>)
            (service (Resolved (Some DEFAULT_THRESHOLDS))
              [(envAt 0 True, (calmReading 0)\<lparr>dailyHoneyGainG := Some (- 300)\<rparr>)]))) = []"
proof -
  let ?E = "service (Resolved (Some DEFAULT_THRESHOLDS))
            [(envAt 0 True, (calmReading 0)\<lparr>dailyHoneyGainG := Some (- 300)\<rparr>)]"
  have a: "dailyHoneyGainG ((calmReading 600000)\<lparr>dailyHoneyGainG := None\<rparr>) = None"
    by simp
  have s: "alertStates ?E HONEY_GAIN_LOW = \<lparr>isActive = True, lastTriggeredAt = Some 0,
      lastClearedAt = None, debounceTimer = None, lastValue = Some (- 300)\<rparr>"
    by (simp add: engine_defs sample_defs)
  from absent_honey_gain_is_skipped [OF a, of "envAt 600000 True" DEFAULT_THRESHOLDS ?E]
  show ?thesis using a s by simp
qed

subsection \<open>C9: a failed audit write and the state\<close>

text \<open>
  C9: when the audit write of a transition fails, the state update made before it
  stands: after a trigger the alert is active with \<^verbatim>\<open>lastTriggeredAt\<close> the instant of
  the transition and \<^verbatim>\<open>lastValue\<close> its value, after a clear it is inactive with
  \<^verbatim>\<open>lastClearedAt\<close> and \<^verbatim>\<open>lastValue\<close> set likewise. The rejection is consumed inside
  the transition, which logs one error and returns the engine to its caller.
\<close>

theorem failed_write_keeps_state:
  "(\<not> insertResolves io \<and> \<not> debounced (clockNow io) (lastTriggeredAt (alertStates eng ty)) \<longrightarrow>
       isActive (alertStates (triggerAlert io ty m v eng) ty)
     \<and> lastTriggeredAt (alertStates (triggerAlert io ty m v eng) ty) = Some (clockNow io)
     \<and> lastValue (alertStates (triggerAlert io ty m v eng) ty) = Some v
     \<and> transitions (added eng (triggerAlert io ty m v eng)) = [(ty, TRIGGERED)]
     \<and> errorsLogged (added eng (triggerAlert io ty m v eng)) = 1)
 \<and> (\<not> insertResolves io \<and> isActive (alertStates eng ty)
       \<and> \<not> debounced (clockNow io) (lastClearedAt (alertStates eng ty)) \<longrightarrow>
       \<not> isActive (alertStates (clearAlert io ty m v eng) ty)
     \<and> lastClearedAt (alertStates (clearAlert io ty m v eng) ty) = Some (clockNow io)
     \<and> lastValue (alertStates (clearAlert io ty m v eng) ty) = Some v
     \<and> transitions (added eng (clearAlert io ty m v eng)) = [(ty, CLEARED)]
     \<and> errorsLogged (added eng (clearAlert io ty m v eng)) = 1)"
  by (simp add: triggerAlert_def clearAlert_def insertEventLog_def Let_def added_def
          split: option.splits)

text \<open>
  C9 at work: the battery alert is triggered at 0 and cleared at 5,000, both with a
  rejected insert; the state follows both transitions.
\<close>

theorem failed_write_keeps_state_witness:
  "\<not> insertResolves (sinkAt 0 False)
   \<and> \<not> debounced (clockNow (sinkAt 0 False)) (lastTriggeredAt (alertStates initialEngine BATTERY_LOW))
   \<and> alertStates
        (triggerAlert (sinkAt 0 False) BATTERY_LOW (Message ''Battery level low'' [15, 20]) 15
           initialEngine) BATTERY_LOW
       = \<lparr>isActive = True, lastTriggeredAt = Some 0, lastClearedAt = None,
          debounceTimer = None, lastValue = Some 15\<rparr>
   \<and> \<not> insertResolves (sinkAt 5000 False)
   \<and> lastClearedAt (alertStates
        (clearAlert (sinkAt 5000 False) BATTERY_LOW (Message ''Battery level normalized'' [90]) 90
          (triggerAlert (sinkAt 0 False) BATTERY_LOW (Message ''Battery level low'' [15, 20]) 15
             initialEngine)) BATTERY_LOW) = Some 5000
   \<and> \<not> isActive (alertStates
        (clearAlert (sinkAt 5000 False) BATTERY_LOW (Message ''Battery level normalized'' [90]) 90
          (triggerAlert (sinkAt 0 False) BATTERY_LOW (Message ''Battery level low'' [15, 20]) 15
             initialEngine)) BATTERY_LOW)"
proof -
  let ?E1 = "triggerAlert (sinkAt 0 False) BATTERY_LOW (Message ''Battery level low'' [15, 20]) 15
           initialEngine"
  have s1: "alertStates ?E1 BATTERY_LOW = \<lparr>isActive = True, lastTriggeredAt = Some 0,
      lastClearedAt = None, debounceTimer = None, lastValue = Some 15\<rparr>"
    by (simp add: triggerAlert_def insertEventLog_def sample_defs Let_def)
  have i0: "lastTriggeredAt (alertStates initialEngine BATTERY_LOW) = None"
    by (simp add: sample_defs)
  from failed_write_keeps_state
         [of "sinkAt 0 False" initialEngine BATTERY_LOW "Message ''Battery level low'' [15, 20]" 15]
       failed_write_keeps_state
         [of "sinkAt 5000 False" ?E1 BATTERY_LOW "Message ''Battery level normalized'' [90]" 90]
  show ?thesis by (simp add: s1 i0)
qed

subsection \<open>C10: the directions of a kind alternate\<close>

text \<open>
  C10: for every alert kind the transitions alternate in direction. Within one call of
  the handler, the transitions of kind \<open>k\<close> replay on its activity flag: a TRIGGERED is
  made only when the state is inactive and leaves it active, a CLEARED only when it is
  active and leaves it inactive. Over a whole run of the service, from construction, the
  transitions of \<open>k\<close> replay from "inactive" to the current flag, so two consecutive
  transitions of the same kind have opposite directions.
\<close>

theorem transitions_alternate:
  "replay (isActive (alertStates eng k))
      (directionsOf k (added eng (handleTelemetryInsert env data eng)))
     = Some (isActive (alertStates (handleTelemetryInsert env data eng) k))
   \<and> replay False (directionsOf k (effects (service q steps)))
       = Some (isActive (alertStates (service q steps) k))
   \<and> oppositeNeighbours (directionsOf k (effects (service q steps)))"
proof -
  have "oppositeNeighbours (directionsOf k (effects (service q steps)))"
    using replay_opposite [OF service_replay [of k q steps]] by simp
  then show ?thesis
    using handleTelemetryInsert_replay [of env data eng k] service_replay [of k q steps]
    by simp
qed

text \<open>
  The transitions above are the ones handed to the sink. The events that reach the
  subscribers are fewer when an audit write fails (see C1), and then need not alternate:
  here the clear at 400,000 loses its insert, and the subscribers see two
  \<^verbatim>\<open>alert.triggered\<close> in a row.
\<close>

lemma published_events_may_repeat:
  "directionsOf TEMP_HIGH (effects (service (Resolved (Some DEFAULT_THRESHOLDS))
      [(envAt 0 True, (calmReading 0)\<lparr>temperature := 37\<rparr>),
       (envAt 400000 False, (calmReading 400000)\<lparr>temperature := 33\<rparr>),
       (envAt 800000 True, (calmReading 800000)\<lparr>temperature := 37\<rparr>)]))
     = [TRIGGERED, CLEARED, TRIGGERED]
   \<and> published (effects (service (Resolved (Some DEFAULT_THRESHOLDS))
      [(envAt 0 True, (calmReading 0)\<lparr>temperature := 37\<rparr>),
       (envAt 400000 False, (calmReading 400000)\<lparr>temperature := 33\<rparr>),
       (envAt 800000 True, (calmReading 800000)\<lparr>temperature := 37\<rparr>)]))
     = [(''alert.triggered'', TEMP_HIGH), (''alert.triggered'', TEMP_HIGH)]"
  by (simp add: engine_defs sample_defs)

end
